theory Spec2Isabelle
  imports Main "HOL-Library.AList"
begin

section \<open>JavaScript values\<close>

text \<open>
  The client of \<^verbatim>\<open>src/lib/testdroid.js\<close> reads parsed JSON bodies without checking their
  shape, so a body is a JSON value and every property read follows JavaScript: reading a
  property of \<^verbatim>\<open>undefined\<close> or \<^verbatim>\<open>null\<close> throws a TypeError, a missing property is
  \<^verbatim>\<open>undefined\<close>. Numbers are mathematical integers (no fractions, no rounding) and strings
  are ASCII; \<open>None\<close> of type \<open>int option\<close> is NaN. An object is the list of its
  properties in insertion order, each key once.
\<close>

datatype json =
    JUndefined
  | JNull
  | JBool bool
  | JNum int
  | JStr string
  | JArr "json list"
  | JObj "(string \<times> json) list"

text \<open>
  What the code throws: \<^verbatim>\<open>new Error(message)\<close>, and the TypeError of a property read on
  \<^verbatim>\<open>undefined\<close> or \<^verbatim>\<open>null\<close> or of a call of something that is no function.
  \<open>Unmodelled\<close> is no JavaScript error: it marks the one coercion this model leaves out,
  the conversion of a string or an array to a number.
\<close>

datatype exn = Error string | TypeError | Unmodelled

fun truthy :: "json \<Rightarrow> bool" where
  "truthy JUndefined = False"
| "truthy JNull = False"
| "truthy (JBool b) = b"
| "truthy (JNum n) = (n \<noteq> 0)"
| "truthy (JStr s) = (s \<noteq> [])"
| "truthy (JArr xs) = True"
| "truthy (JObj kvs) = True"

text \<open>
  The property read \<^verbatim>\<open>v.k\<close>, for the names the code reads: \<^verbatim>\<open>length\<close> is the one of these
  that arrays and strings have; none is an index and none is inherited from a prototype.
\<close>

fun getProp :: "json \<Rightarrow> string \<Rightarrow> exn + json" where
  "getProp JUndefined k = Inl TypeError"
| "getProp JNull k = Inl TypeError"
| "getProp (JObj kvs) k = Inr (case map_of kvs k of None \<Rightarrow> JUndefined | Some v \<Rightarrow> v)"
| "getProp (JArr xs) k = Inr (if k = ''length'' then JNum (int (length xs)) else JUndefined)"
| "getProp (JStr s) k = Inr (if k = ''length'' then JNum (int (length s)) else JUndefined)"
| "getProp (JBool b) k = Inr JUndefined"
| "getProp (JNum n) k = Inr JUndefined"

text \<open>The indexed read \<^verbatim>\<open>v[0]\<close>.\<close>

fun index0 :: "json \<Rightarrow> exn + json" where
  "index0 JUndefined = Inl TypeError"
| "index0 JNull = Inl TypeError"
| "index0 (JArr xs) = Inr (case xs of [] \<Rightarrow> JUndefined | x # _ \<Rightarrow> x)"
| "index0 (JStr s) = Inr (case s of [] \<Rightarrow> JUndefined | ch # _ \<Rightarrow> JStr [ch])"
| "index0 (JObj kvs) = Inr (case map_of kvs ''0'' of None \<Rightarrow> JUndefined | Some v \<Rightarrow> v)"
| "index0 (JBool b) = Inr JUndefined"
| "index0 (JNum n) = Inr JUndefined"

definition digit :: "nat \<Rightarrow> char" where
  "digit d = char_of (48 + d)"

function decimal :: "nat \<Rightarrow> string" where
  "decimal n = (if n < 10 then [digit n] else decimal (n div 10) @ [digit (n mod 10)])"
  by pat_completeness auto
termination
  by (relation "measure id") auto

fun join :: "string \<Rightarrow> string list \<Rightarrow> string" where
  "join sep [] = []"
| "join sep [x] = x"
| "join sep (x # y # ys) = x @ sep @ join sep (y # ys)"

text \<open>
  The string conversion of a template literal \<^verbatim>\<open>`${v}`\<close>: an array joins its elements
  with commas (\<^verbatim>\<open>undefined\<close> and \<^verbatim>\<open>null\<close> elements as the empty string), a plain
  object is \<^verbatim>\<open>[object Object]\<close>.
\<close>

fun toStr :: "json \<Rightarrow> string" where
  "toStr JUndefined = ''undefined''"
| "toStr JNull = ''null''"
| "toStr (JBool b) = (if b then ''true'' else ''false'')"
| "toStr (JNum n) = (if n < 0 then CHR ''-'' # decimal (nat (- n)) else decimal (nat n))"
| "toStr (JStr s) = s"
| "toStr (JArr xs) =
     join '','' (map (\<lambda>x. if x = JUndefined \<or> x = JNull then [] else toStr x) xs)"
| "toStr (JObj kvs) = ''[object Object]''"

text \<open>
  The number conversion of \<^verbatim>\<open>v * 1000\<close>. A plain object converts to NaN through its
  string \<^verbatim>\<open>[object Object]\<close>; strings and arrays are left out of the model.
\<close>

fun toNumber :: "json \<Rightarrow> exn + int option" where
  "toNumber JUndefined = Inr None"
| "toNumber JNull = Inr (Some 0)"
| "toNumber (JBool b) = Inr (Some (if b then 1 else 0))"
| "toNumber (JNum n) = Inr (Some n)"
| "toNumber (JObj kvs) = Inr None"
| "toNumber (JStr s) = Inl Unmodelled"
| "toNumber (JArr xs) = Inl Unmodelled"

text \<open>Arithmetic and comparison of numbers that may be NaN: every comparison with NaN is false.\<close>

definition num_mul :: "int option \<Rightarrow> int option \<Rightarrow> int option" where
  "num_mul a b = (case a of None \<Rightarrow> None | Some x \<Rightarrow> (case b of None \<Rightarrow> None | Some y \<Rightarrow> Some (x * y)))"

definition num_add :: "int option \<Rightarrow> int option \<Rightarrow> int option" where
  "num_add a b = (case a of None \<Rightarrow> None | Some x \<Rightarrow> (case b of None \<Rightarrow> None | Some y \<Rightarrow> Some (x + y)))"

definition num_gt :: "int option \<Rightarrow> int option \<Rightarrow> bool" where
  "num_gt a b = (case a of None \<Rightarrow> False | Some x \<Rightarrow> (case b of None \<Rightarrow> False | Some y \<Rightarrow> x > y))"

text \<open>
  \<^verbatim>\<open>new Date(t)\<close>: the time value of the date, NaN (an invalid date) when \<open>t\<close> is NaN or
  beyond 8.64e15 milliseconds either side of the epoch.
\<close>

definition newDate :: "int option \<Rightarrow> int option" where
  "newDate t = (case t of None \<Rightarrow> None
                | Some x \<Rightarrow> if abs x \<le> 8640000000000000 then Some x else None)"

section \<open>The client, the clock and the server\<close>

text \<open>
  The fields of the client object. The constructor leaves \<^verbatim>\<open>token\<close>, \<^verbatim>\<open>refreshToken\<close>
  and \<^verbatim>\<open>tokenExpiration\<close> unset (\<^verbatim>\<open>undefined\<close>); \<^verbatim>\<open>tokenExpiration\<close> is later a Date,
  held here by its time value, where \<open>None\<close> stands for \<^verbatim>\<open>undefined\<close> and for an invalid
  date alike (both compare as NaN). The package version comes from \<^verbatim>\<open>package.json\<close> and is
  a parameter of the constructor.
\<close>

record client =
  version :: string
  baseUrl :: string
  apiUrl :: string
  username :: string
  password :: string
  userAgent :: string
  token :: json
  refreshToken :: json
  tokenExpiration :: "int option"

definition constructor :: "string \<Rightarrow> string \<Rightarrow> string \<Rightarrow> string \<Rightarrow> client" where
  "constructor ver url user pass =
     \<lparr>version = ver, baseUrl = url, apiUrl = url @ ''api/v2/'', username = user,
      password = pass, userAgent = ''testdroid-client/'' @ ver,
      token = JUndefined, refreshToken = JUndefined, tokenExpiration = None\<rparr>"

text \<open>
  Paths and URLs are kept as the code builds them: \<open>UrlJoin a p\<close> is \<^verbatim>\<open>urljoin(a, p)\<close>, and
  \<open>ProxyQuery type sessionId\<close> is the path of the proxy search,
  \<^verbatim>\<open>util.format('proxy-plugin/proxies?where=%s', encodeURIComponent(util.format(queryFormat, type, sessionId)))\<close>.
\<close>

datatype path = Path string | ProxyQuery string string

datatype url = UrlJoin string path

datatype req_data = Query json | Send json

record http_request =
  req_method :: string
  req_url :: url
  req_headers :: "(string \<times> string) list"
  req_data :: req_data

text \<open>
  A response as the code reads it: \<^verbatim>\<open>res.ok\<close>, \<^verbatim>\<open>res.error\<close> (\<^verbatim>\<open>false\<close>, here \<open>None\<close>, or
  an Error object, here its message) and \<^verbatim>\<open>res.body\<close>.
\<close>

record response =
  ok :: bool
  error :: "string option"
  body :: json

datatype event = Request http_request | Sleep int

text \<open>
  The world outside the client: the clock read by \<^verbatim>\<open>Date.now()\<close> (milliseconds), the trace
  of requests sent and sleeps taken, and the server, which answers the \<open>k\<close>-th request of
  the run with \<open>server k\<close>: the time the exchange takes and the response. Every run of the
  client against any server is the run against one such script, so a theorem for all
  scripts is a theorem for all servers. A request always resolves to a response (a
  network failure is not modelled), and the clock moves only while the client awaits.
\<close>

record world =
  now :: int
  served :: nat
  trace :: "event list"
  server :: "nat \<Rightarrow> int \<times> response"

text \<open>\<^verbatim>\<open>await req.end()\<close>\<close>

definition send_request :: "http_request \<Rightarrow> world \<Rightarrow> response \<times> world" where
  "send_request req w =
     (let (lat, res) = server w (served w)
      in (res, w\<lparr>now := now w + lat, served := Suc (served w),
                  trace := trace w @ [Request req]\<rparr>))"

text \<open>\<^verbatim>\<open>await sleep(duration)\<close>\<close>

definition sleep :: "int \<Rightarrow> world \<Rightarrow> world" where
  "sleep duration w = w\<lparr>now := now w + duration, trace := trace w @ [Sleep duration]\<rparr>"

section \<open>getToken\<close>

text \<open>
  The payload of the token request, or \<open>None\<close> where the code returns the cached token:
  lines 355 to 375 of the source.
\<close>

definition tokenPayload :: "client \<Rightarrow> world \<Rightarrow> json option" where
  "tokenPayload c w =
     (if \<not> truthy (token c) \<or> num_gt (Some (now w)) (tokenExpiration c) then
        Some (JObj [(''client_id'', JStr ''testdroid-cloud-api''),
                    (''grant_type'', JStr ''password''),
                    (''username'', JStr (username c)),
                    (''password'', JStr (password c))])
      else if num_gt (tokenExpiration c) (Some (now w + 60000)) then None
      else
        Some (JObj [(''client_id'', JStr ''testdroid-cloud-api''),
                    (''grant_type'', JStr ''refresh_token''),
                    (''refresh_token'', refreshToken c)]))"

definition tokenRequest :: "client \<Rightarrow> json \<Rightarrow> http_request" where
  "tokenRequest c pl =
     \<lparr>req_method = ''POST'', req_url = UrlJoin (baseUrl c) (Path ''oauth/token''),
      req_headers = [(''User-Agent'', userAgent c),
                     (''Content-Type'', ''application/x-www-form-urlencoded''),
                     (''Accept'', ''application/json'')],
      req_data = Send pl\<rparr>"

text \<open>
  Lines 388 to 398: the three assignments in the order of the source, each read of
  \<^verbatim>\<open>res.body\<close> able to throw, the expiration computed from the clock after the response.
\<close>

definition storeToken :: "response \<Rightarrow> client \<Rightarrow> world \<Rightarrow> (exn + json) \<times> client \<times> world" where
  "storeToken res c w =
     (case getProp (body res) ''refresh_token'' of
        Inl e \<Rightarrow> (Inl e, c, w)
      | Inr rt \<Rightarrow>
          (let c1 = c\<lparr>refreshToken := rt\<rparr> in
           case getProp (body res) ''access_token'' of
             Inl e \<Rightarrow> (Inl e, c1, w)
           | Inr tok \<Rightarrow>
               (let c2 = c1\<lparr>token := tok\<rparr> in
                case getProp (body res) ''expires_in'' of
                  Inl e \<Rightarrow> (Inl e, c2, w)
                | Inr ex \<Rightarrow>
                    (case toNumber ex of
                       Inl e \<Rightarrow> (Inl e, c2, w)
                     | Inr n \<Rightarrow>
                         (let c3 = c2\<lparr>tokenExpiration :=
                                     newDate (num_add (Some (now w)) (num_mul n (Some 1000)))\<rparr>
                          in case getProp (body res) ''access_token'' of
                               Inl e \<Rightarrow> (Inl e, c3, w)
                             | Inr tok' \<Rightarrow> (Inr tok', c3, w))))))"

definition getToken :: "client \<Rightarrow> world \<Rightarrow> (exn + json) \<times> client \<times> world" where
  "getToken c w =
     (case tokenPayload c w of
        None \<Rightarrow> (Inr (token c), c, w)
      | Some pl \<Rightarrow>
          (let (res, w1) = send_request (tokenRequest c pl) w in
           if \<not> ok res then
             (case getProp (body res) ''error_description'' of
                Inl e \<Rightarrow> (Inl e, c, w1)
              | Inr d \<Rightarrow>
                  (Inl (Error (''Could not retrieve token. Error Reponse: '' @ toStr d)), c, w1))
           else storeToken res c w1))"

section \<open>Requests\<close>

text \<open>
  The options object of a request: each property may be absent. The code writes into the
  caller's object (\<^verbatim>\<open>post\<close> assigns \<^verbatim>\<open>opts.headers\<close>, \<^verbatim>\<open>buildHeaders\<close> assigns properties of
  the headers object it is given), so every function that takes options returns them as
  the caller finds them afterwards.
\<close>

record opts =
  payload :: "json option"
  headers :: "(string \<times> string) list option"

definition no_opts :: opts where
  "no_opts = \<lparr>payload = None, headers = None\<rparr>"

definition buildHeaders ::
  "(string \<times> string) list option \<Rightarrow> client \<Rightarrow> world
     \<Rightarrow> (exn + (string \<times> string) list) \<times> client \<times> world" where
  "buildHeaders given c w =
     (let hs = (case given of None \<Rightarrow> [] | Some h \<Rightarrow> h) in
      case getToken c w of
        (Inl e, c1, w1) \<Rightarrow> (Inl e, c1, w1)
      | (Inr tok, c1, w1) \<Rightarrow>
          (let hs1 = AList.update ''Authorization'' (''Bearer '' @ toStr tok) hs;
               hs2 = (if map_of hs1 ''Accept'' = None
                      then AList.update ''Accept'' ''application/json'' hs1 else hs1)
           in (Inr hs2, c1, w1)))"

definition toUpperCase :: "string \<Rightarrow> string" where
  "toUpperCase s =
     map (\<lambda>ch. let n = (of_char ch :: nat) in
                if 97 \<le> n \<and> n \<le> 122 then char_of (n - 32) else ch) s"

text \<open>
  The source's \<^verbatim>\<open>__request\<close>. The headers object that \<^verbatim>\<open>buildHeaders\<close> fills is the caller's
  \<^verbatim>\<open>opts.headers\<close> when that is set, and a fresh object otherwise.
\<close>

definition api_request ::
  "string \<Rightarrow> path \<Rightarrow> opts \<Rightarrow> client \<Rightarrow> world \<Rightarrow> (exn + response) \<times> opts \<times> client \<times> world" where
  "api_request meth p os c w =
     (let endpoint = UrlJoin (apiUrl c) p;
          pl = (case payload os of None \<Rightarrow> JObj [] | Some v \<Rightarrow> v) in
      case buildHeaders (headers os) c w of
        (Inl e, c1, w1) \<Rightarrow> (Inl e, os, c1, w1)
      | (Inr hs, c1, w1) \<Rightarrow>
          (let os1 = (case headers os of None \<Rightarrow> os | Some _ \<Rightarrow> os\<lparr>headers := Some hs\<rparr>);
               req = \<lparr>req_method = toUpperCase meth, req_url = endpoint, req_headers = hs,
                      req_data = (if toUpperCase meth = ''GET'' then Query pl else Send pl)\<rparr>;
               (res, w2) = send_request req w1
           in (Inr res, os1, c1, w2)))"

text \<open>
  \<^verbatim>\<open>String(res.error)\<close>, the message of \<^verbatim>\<open>new Error(res.error)\<close>, and \<^verbatim>\<open>res.error.message\<close>
  inside a template literal.
\<close>

definition errorToString :: "string option \<Rightarrow> string" where
  "errorToString e =
     (case e of None \<Rightarrow> ''false'' | Some m \<Rightarrow> if m = [] then ''Error'' else ''Error: '' @ m)"

definition errorMessage :: "string option \<Rightarrow> string" where
  "errorMessage e = (case e of None \<Rightarrow> ''undefined'' | Some m \<Rightarrow> m)"

definition del :: "path \<Rightarrow> client \<Rightarrow> world \<Rightarrow> (exn + response) \<times> client \<times> world" where
  "del p c w =
     (case api_request ''delete'' p no_opts c w of
        (Inl e, os1, c1, w1) \<Rightarrow> (Inl e, c1, w1)
      | (Inr res, os1, c1, w1) \<Rightarrow>
          if \<not> ok res then (Inl (Error (errorToString (error res))), c1, w1)
          else (Inr res, c1, w1))"

definition get ::
  "path \<Rightarrow> opts \<Rightarrow> client \<Rightarrow> world \<Rightarrow> (exn + response) \<times> opts \<times> client \<times> world" where
  "get p os c w =
     (case api_request ''get'' p os c w of
        (Inl e, os1, c1, w1) \<Rightarrow> (Inl e, os1, c1, w1)
      | (Inr res, os1, c1, w1) \<Rightarrow>
          if \<not> ok res then (Inl (Error (errorToString (error res))), os1, c1, w1)
          else (Inr res, os1, c1, w1))"

definition post ::
  "path \<Rightarrow> opts \<Rightarrow> client \<Rightarrow> world \<Rightarrow> (exn + response) \<times> opts \<times> client \<times> world" where
  "post p os c w =
     api_request ''post'' p
       (os\<lparr>headers := Some [(''Content-Type'', ''application/x-www-form-urlencoded'')]\<rparr>) c w"

section \<open>Devices\<close>

definition getDevices :: "int \<Rightarrow> client \<Rightarrow> world \<Rightarrow> (exn + json) \<times> client \<times> world" where
  "getDevices limit c w =
     (let os = \<lparr>payload = Some (JObj [(''limit'', JNum limit)]), headers = None\<rparr> in
      case get (Path ''devices'') os c w of
        (Inl e, os1, c1, w1) \<Rightarrow> (Inl e, c1, w1)
      | (Inr res, os1, c1, w1) \<Rightarrow>
          (case getProp (body res) ''data'' of
             Inl e \<Rightarrow> (Inl e, c1, w1)
           | Inr d \<Rightarrow> (Inr d, c1, w1)))"

text \<open>
  \<^verbatim>\<open>devices.filter(cb)\<close> with the callback of the source: the read of \<^verbatim>\<open>device.displayName\<close>
  throws on an element that is \<^verbatim>\<open>undefined\<close> or \<^verbatim>\<open>null\<close>, and \<^verbatim>\<open>===\<close> against a string
  holds for that very string only.
\<close>

fun filterByName :: "string \<Rightarrow> json list \<Rightarrow> exn + json list" where
  "filterByName deviceName [] = Inr []"
| "filterByName deviceName (device # rest) =
     (case getProp device ''displayName'' of
        Inl e \<Rightarrow> Inl e
      | Inr n \<Rightarrow>
          (case filterByName deviceName rest of
             Inl e \<Rightarrow> Inl e
           | Inr matched \<Rightarrow> Inr (if n = JStr deviceName then device # matched else matched)))"

definition getDevicesByName :: "string \<Rightarrow> client \<Rightarrow> world \<Rightarrow> (exn + json) \<times> client \<times> world" where
  "getDevicesByName deviceName c w =
     (case getDevices 0 c w of
        (Inl e, c1, w1) \<Rightarrow> (Inl e, c1, w1)
      | (Inr devices, c1, w1) \<Rightarrow>
          (case devices of
             JArr ds \<Rightarrow>
               (case filterByName deviceName ds of
                  Inl e \<Rightarrow> (Inl e, c1, w1)
                | Inr matchedDevices \<Rightarrow> (Inr (JArr matchedDevices), c1, w1))
           | _ \<Rightarrow> (Inl TypeError, c1, w1)))"

section \<open>Proxies\<close>

definition maxRetries :: nat where
  "maxRetries = 30"

text \<open>
  The loop of lines 328 to 335, from attempt \<open>i\<close> on; \<open>res\<close> is the variable the loop
  assigns, unset before the first attempt. \<^verbatim>\<open>get\<close> is called without options. The read
  of \<^verbatim>\<open>res.body.length\<close> in the loop is guarded by \<^verbatim>\<open>res.body\<close> being truthy, so it cannot
  throw there.
\<close>

function getProxy_loop ::
  "nat \<Rightarrow> string \<Rightarrow> string \<Rightarrow> response option \<Rightarrow> client \<Rightarrow> world
     \<Rightarrow> (exn + response option) \<times> client \<times> world" where
  "getProxy_loop i type sessionId res c w =
     (if i \<le> maxRetries then
        (case get (ProxyQuery type sessionId) no_opts c w of
           (Inl e, os1, c1, w1) \<Rightarrow> (Inl e, c1, w1)
         | (Inr res1, os1, c1, w1) \<Rightarrow>
             if ok res1 \<and> truthy (body res1)
                \<and> (case getProp (body res1) ''length'' of Inl e \<Rightarrow> False | Inr n \<Rightarrow> truthy n)
             then (Inr (Some res1), c1, w1)
             else getProxy_loop (i + 1) type sessionId (Some res1) c1 (sleep 5000 w1))
      else (Inr res, c, w))"
  by pat_completeness auto
termination
  by (relation "measure (\<lambda>(i, type, sessionId, res, c, w). maxRetries + 1 - i)") auto

definition getProxy :: "string \<Rightarrow> string \<Rightarrow> client \<Rightarrow> world \<Rightarrow> (exn + json) \<times> client \<times> world" where
  "getProxy type sessionId c w =
     (case getProxy_loop 1 type sessionId None c w of
        (Inl e, c1, w1) \<Rightarrow> (Inl e, c1, w1)
      | (Inr None, c1, w1) \<Rightarrow> (Inl TypeError, c1, w1)
      | (Inr (Some res), c1, w1) \<Rightarrow>
          if \<not> ok res then
            (Inl (Error (''Could not get '' @ type @ '' proxy session for '' @ sessionId)), c1, w1)
          else
            (case getProp (body res) ''length'' of
               Inl e \<Rightarrow> (Inl e, c1, w1)
             | Inr n \<Rightarrow>
                 if \<not> truthy n then
                   (Inl (Error (''Could not get '' @ type @ '' proxy session for '' @ sessionId)),
                    c1, w1)
                 else
                   (case index0 (body res) of
                      Inl e \<Rightarrow> (Inl e, c1, w1)
                    | Inr first \<Rightarrow> (Inr first, c1, w1))))"

section \<open>Device sessions\<close>

text \<open>
  In \<^verbatim>\<open>startDeviceSession\<close> the template literal of the last \<^verbatim>\<open>debug\<close> call reads
  \<^verbatim>\<open>res.body.id\<close> before the body is returned, whether or not debugging is on.
\<close>

definition startDeviceSession ::
  "string \<Rightarrow> client \<Rightarrow> world \<Rightarrow> (exn + json) \<times> client \<times> world" where
  "startDeviceSession deviceId c w =
     (let pl = JObj [(''deviceModelId'', JStr deviceId)] in
      case post (Path ''me/device-sessions'') \<lparr>payload = Some pl, headers = None\<rparr> c w of
        (Inl e, os1, c1, w1) \<Rightarrow> (Inl e, c1, w1)
      | (Inr res, os1, c1, w1) \<Rightarrow>
          if \<not> ok res then
            (Inl (Error (''Could not create session for '' @ deviceId @ ''. ''
                         @ errorMessage (error res))), c1, w1)
          else
            (case getProp (body res) ''id'' of
               Inl e \<Rightarrow> (Inl e, c1, w1)
             | Inr sid \<Rightarrow> (Inr (body res), c1, w1)))"

definition stopDeviceSession ::
  "string \<Rightarrow> client \<Rightarrow> world \<Rightarrow> (exn + response) \<times> client \<times> world" where
  "stopDeviceSession sessionId c w =
     (let p = Path (''me/device-sessions/'' @ sessionId @ ''/release'') in
      case post p no_opts c w of
        (Inl e, os1, c1, w1) \<Rightarrow> (Inl e, c1, w1)
      | (Inr res, os1, c1, w1) \<Rightarrow>
          if \<not> ok res then
            (Inl (Error (''Could not stop the session properly for '' @ sessionId @ ''.  ''
                         @ errorMessage (error res))), c1, w1)
          else (Inr res, c1, w1))"

section \<open>Notions for the statements\<close>

text \<open>
  The response the server gives to the next request sent from world \<open>w\<close>, and the world
  after that exchange.
\<close>

definition answer :: "world \<Rightarrow> response" where
  "answer w = snd (server w (served w))"

definition answered :: "http_request \<Rightarrow> world \<Rightarrow> world" where
  "answered req w = snd (send_request req w)"

text \<open>The requests sent between world \<open>w\<close> and a later world \<open>w'\<close>, in order.\<close>

definition requests :: "event list \<Rightarrow> http_request list" where
  "requests evs = concat (map (\<lambda>ev. case ev of Request r \<Rightarrow> [r] | Sleep d \<Rightarrow> []) evs)"

definition issued :: "world \<Rightarrow> world \<Rightarrow> http_request list" where
  "issued w w' = requests (drop (length (trace w)) (trace w'))"

definition grant_type :: "http_request \<Rightarrow> json option" where
  "grant_type r =
     (case req_data r of Send (JObj kvs) \<Rightarrow> map_of kvs ''grant_type'' | _ \<Rightarrow> None)"

text \<open>
  The token is held and its expiration is more than 60 seconds after time \<open>t\<close>: at such
  a time \<^verbatim>\<open>getToken\<close> answers from the cache.
\<close>

definition tokenFresh :: "client \<Rightarrow> int \<Rightarrow> bool" where
  "tokenFresh c t = (truthy (token c) \<and> num_gt (tokenExpiration c) (Some (t + 60000)))"

text \<open>The headers \<^verbatim>\<open>buildHeaders\<close> returns once \<^verbatim>\<open>getToken\<close> has returned \<open>tok\<close>.\<close>

definition authHeaders :: "json \<Rightarrow> (string \<times> string) list \<Rightarrow> (string \<times> string) list" where
  "authHeaders tok hs =
     (let hs1 = AList.update ''Authorization'' (''Bearer '' @ toStr tok) hs
      in if map_of hs1 ''Accept'' = None
         then AList.update ''Accept'' ''application/json'' hs1 else hs1)"

text \<open>The request \<^verbatim>\<open>__request\<close> sends once \<^verbatim>\<open>getToken\<close> has returned \<open>tok\<close>.\<close>

definition apiRequest :: "string \<Rightarrow> path \<Rightarrow> opts \<Rightarrow> client \<Rightarrow> json \<Rightarrow> http_request" where
  "apiRequest meth p os c tok =
     \<lparr>req_method = toUpperCase meth, req_url = UrlJoin (apiUrl c) p,
      req_headers = authHeaders tok (case headers os of None \<Rightarrow> [] | Some h \<Rightarrow> h),
      req_data = (if toUpperCase meth = ''GET''
                  then Query (case payload os of None \<Rightarrow> JObj [] | Some v \<Rightarrow> v)
                  else Send (case payload os of None \<Rightarrow> JObj [] | Some v \<Rightarrow> v))\<rparr>"

subsection \<open>Polling\<close>

text \<open>
  For a run of \<^verbatim>\<open>getProxy\<close> from world \<open>w\<close> in which \<^verbatim>\<open>getToken\<close> sends nothing:
  \<open>attemptReply w k\<close> is the response to attempt \<open>k\<close> (counted from 0) and
  \<open>attemptTime w k\<close> the clock when attempt \<open>k\<close> starts, every earlier attempt having
  been followed by the sleep of 5000 ms. \<open>proxyRequest\<close> is the request of an attempt and
  \<open>polled q k w\<close> the world after \<open>k\<close> attempts that each ended in the sleep.
  \<open>hasResult\<close> is the loop's test \<^verbatim>\<open>res.body && res.body.length\<close>.
\<close>

primrec attemptTime :: "world \<Rightarrow> nat \<Rightarrow> int" where
  "attemptTime w 0 = now w"
| "attemptTime w (Suc k) = attemptTime w k + fst (server w (served w + k)) + 5000"

definition attemptReply :: "world \<Rightarrow> nat \<Rightarrow> response" where
  "attemptReply w k = snd (server w (served w + k))"

definition proxyRequest :: "client \<Rightarrow> string \<Rightarrow> string \<Rightarrow> http_request" where
  "proxyRequest c type sessionId =
     \<lparr>req_method = ''GET'', req_url = UrlJoin (apiUrl c) (ProxyQuery type sessionId),
      req_headers = [(''Authorization'', ''Bearer '' @ toStr (token c)),
                     (''Accept'', ''application/json'')],
      req_data = Query (JObj [])\<rparr>"

primrec polled :: "http_request \<Rightarrow> nat \<Rightarrow> world \<Rightarrow> world" where
  "polled q 0 w = w"
| "polled q (Suc k) w = sleep 5000 (answered q (polled q k w))"

definition hasResult :: "json \<Rightarrow> bool" where
  "hasResult b =
     (truthy b \<and> (case getProp b ''length'' of Inl e \<Rightarrow> False | Inr n \<Rightarrow> truthy n))"

text \<open>
  The same run without any assumption on the token: \<open>attemptState type sessionId c w k\<close>
  is the client and the world at the start of attempt \<open>k\<close>, every earlier attempt having
  called \<^verbatim>\<open>get\<close> and slept 5000 ms; \<open>attemptResult type sessionId c w k\<close> is what the
  \<^verbatim>\<open>get\<close> of attempt \<open>k\<close> returns or throws, with the client and the world it leaves;
  \<open>lastResponse\<close> is the response of an attempt that returned.
\<close>

primrec attemptState :: "string \<Rightarrow> string \<Rightarrow> client \<Rightarrow> world \<Rightarrow> nat \<Rightarrow> client \<times> world" where
  "attemptState type sessionId c w 0 = (c, w)"
| "attemptState type sessionId c w (Suc k) =
     (case attemptState type sessionId c w k of
        (ck, wk) \<Rightarrow>
          (case get (ProxyQuery type sessionId) no_opts ck wk of
             (r, os1, c1, w1) \<Rightarrow> (c1, sleep 5000 w1)))"

definition attemptResult ::
  "string \<Rightarrow> string \<Rightarrow> client \<Rightarrow> world \<Rightarrow> nat \<Rightarrow> (exn + response) \<times> client \<times> world" where
  "attemptResult type sessionId c w k =
     (case attemptState type sessionId c w k of
        (ck, wk) \<Rightarrow>
          (case get (ProxyQuery type sessionId) no_opts ck wk of
             (r, os1, c1, w1) \<Rightarrow> (r, c1, w1)))"

definition lastResponse :: "string \<Rightarrow> string \<Rightarrow> client \<Rightarrow> world \<Rightarrow> nat \<Rightarrow> response option" where
  "lastResponse type sessionId c w k =
     (case fst (attemptResult type sessionId c w k) of Inl e \<Rightarrow> None | Inr r \<Rightarrow> Some r)"

text \<open>The requests of a trace that are proxy queries, told by their path.\<close>

definition isProxyQuery :: "http_request \<Rightarrow> bool" where
  "isProxyQuery r = (case req_url r of UrlJoin b (ProxyQuery t s) \<Rightarrow> True | UrlJoin b (Path p) \<Rightarrow> False)"

definition queries :: "event list \<Rightarrow> nat" where
  "queries evs = length (filter isProxyQuery (requests evs))"

subsection \<open>Concrete clients and servers\<close>

definition example_client :: client where
  "example_client = constructor ''1.0.0'' ''http://cloudurl/'' ''joe@example.com'' ''123456''"

definition client_holding :: "int option \<Rightarrow> client" where
  "client_holding ex =
     example_client\<lparr>token := JStr ''abc'', refreshToken := JStr ''xyz'', tokenExpiration := ex\<rparr>"

definition token_reply :: response where
  "token_reply =
     \<lparr>ok = True, error = None,
      body = JObj [(''access_token'', JStr ''abc''), (''refresh_token'', JStr ''xyz''),
                   (''expires_in'', JNum 3600)]\<rparr>"

definition world_at :: "int \<Rightarrow> (nat \<Rightarrow> int \<times> response) \<Rightarrow> world" where
  "world_at t srv = \<lparr>now = t, served = 0, trace = [], server = srv\<rparr>"

definition failure_reply :: response where
  "failure_reply = \<lparr>ok = False, error = Some ''Internal Server Error'', body = JObj []\<rparr>"

definition session_reply :: response where
  "session_reply = \<lparr>ok = True, error = None, body = JObj [(''id'', JNum 42)]\<rparr>"

definition devices_reply :: response where
  "devices_reply =
     \<lparr>ok = True, error = None,
      body = JObj [(''data'', JArr [JObj [(''id'', JNum 1), (''displayName'', JStr ''flame'')],
                                  JObj [(''id'', JNum 2), (''displayName'', JStr ''flame-kk'')],
                                  JObj [(''id'', JNum 3), (''displayName'', JStr ''flame'')]])]\<rparr>"

definition denied_reply :: response where
  "denied_reply =
     \<lparr>ok = False, error = Some ''Unauthorized'',
      body = JObj [(''error_description'', JStr ''Bad credentials'')]\<rparr>"

definition empty_reply :: response where
  "empty_reply = \<lparr>ok = True, error = None, body = JArr []\<rparr>"

definition proxy_reply :: response where
  "proxy_reply =
     \<lparr>ok = True, error = None,
      body = JArr [JObj [(''type'', JStr ''adb''), (''sessionId'', JNum 42), (''port'', JNum 5555)],
                   JObj [(''type'', JStr ''adb''), (''sessionId'', JNum 42), (''port'', JNum 5556)]]\<rparr>"


definition not_modified_reply :: response where
  "not_modified_reply = \<lparr>ok = False, error = None, body = JObj []\<rparr>"

section \<open>Auxiliary facts\<close>

subsection \<open>Requests and tokens\<close>

lemma toUpperCase_get: "toUpperCase ''get'' = ''GET''"
  by code_simp

lemma toUpperCase_post: "toUpperCase ''post'' = ''POST''"
  by code_simp

lemma toUpperCase_delete: "toUpperCase ''delete'' = ''DELETE''"
  by code_simp

lemma send_request_eq: "send_request req w = (answer w, answered req w)"
  by (simp add: send_request_def answer_def answered_def split: prod.splits)

lemma answered_simps:
  "now (answered req w) = now w + fst (server w (served w))"
  "served (answered req w) = Suc (served w)"
  "trace (answered req w) = trace w @ [Request req]"
  "server (answered req w) = server w"
  by (simp_all add: answered_def send_request_def split: prod.splits)

lemma tokenPayload_password:
  "\<not> truthy (token c) \<or> (\<exists>e. tokenExpiration c = Some e \<and> e < now w) \<Longrightarrow>
   tokenPayload c w =
     Some (JObj [(''client_id'', JStr ''testdroid-cloud-api''),
                 (''grant_type'', JStr ''password''),
                 (''username'', JStr (username c)),
                 (''password'', JStr (password c))])"
  by (auto simp: tokenPayload_def num_gt_def)

lemma tokenPayload_refresh:
  "truthy (token c) \<Longrightarrow> tokenExpiration c = Some e \<Longrightarrow> now w \<le> e \<Longrightarrow> e \<le> now w + 60000 \<Longrightarrow>
   tokenPayload c w =
     Some (JObj [(''client_id'', JStr ''testdroid-cloud-api''),
                 (''grant_type'', JStr ''refresh_token''),
                 (''refresh_token'', refreshToken c)])"
  by (auto simp: tokenPayload_def num_gt_def)

lemma tokenPayload_cached:
  "truthy (token c) \<Longrightarrow> tokenExpiration c = Some e \<Longrightarrow> now w + 60000 < e \<Longrightarrow>
   tokenPayload c w = None"
  by (auto simp: tokenPayload_def num_gt_def)


lemma tokenPayload_fresh: "tokenFresh c (now w) \<Longrightarrow> tokenPayload c w = None"
  by (auto simp: tokenFresh_def tokenPayload_def num_gt_def split: option.splits)

lemma getToken_cached: "tokenPayload c w = None \<Longrightarrow> getToken c w = (Inr (token c), c, w)"
  by (simp add: getToken_def)

lemma storeToken_world: "snd (snd (storeToken res c w)) = w"
  by (simp add: storeToken_def Let_def split: sum.splits)

lemma getToken_sends:
  "tokenPayload c w = Some pl \<Longrightarrow> snd (snd (getToken c w)) = answered (tokenRequest c pl) w"
  by (simp add: getToken_def send_request_eq storeToken_world split: sum.splits)

lemma buildHeaders_ok:
  "getToken c w = (Inr tok, c1, w1) \<Longrightarrow>
   buildHeaders given c w =
     (Inr (authHeaders tok (case given of None \<Rightarrow> [] | Some h \<Rightarrow> h)), c1, w1)"
  by (simp add: buildHeaders_def authHeaders_def Let_def)

lemma buildHeaders_fail:
  "getToken c w = (Inl e, c1, w1) \<Longrightarrow> buildHeaders given c w = (Inl e, c1, w1)"
  by (simp add: buildHeaders_def)

lemma api_request_ok:
  "getToken c w = (Inr tok, c1, w1) \<Longrightarrow>
   api_request meth p os c w =
     (Inr (answer w1),
      (case headers os of None \<Rightarrow> os | Some h \<Rightarrow> os\<lparr>headers := Some (authHeaders tok h)\<rparr>),
      c1, answered (apiRequest meth p os c tok) w1)"
  by (simp add: api_request_def buildHeaders_ok send_request_eq apiRequest_def Let_def
           split: option.splits)

lemma api_request_fail:
  "getToken c w = (Inl e, c1, w1) \<Longrightarrow> api_request meth p os c w = (Inl e, os, c1, w1)"
  by (simp add: api_request_def buildHeaders_fail)

lemma issued_answered: "issued w (answered req w) = [req]"
  by (simp add: issued_def requests_def answered_simps)

lemma grant_type_tokenRequest:
  "grant_type (tokenRequest c (JObj kvs)) = map_of kvs ''grant_type''"
  by (simp add: grant_type_def tokenRequest_def)

lemma storeToken_result:
  "storeToken res c w = (Inr t, c1, w1) \<Longrightarrow> token c1 = t \<and> w1 = w"
  by (auto simp: storeToken_def Let_def split: sum.splits)

lemma getToken_stores:
  "getToken c w = (Inr t, c1, w1) \<Longrightarrow> tokenPayload c w = Some pl \<Longrightarrow>
   token c1 = t \<and> w1 = answered (tokenRequest c pl) w"
  by (auto simp: getToken_def send_request_eq split: sum.splits if_splits
           dest: storeToken_result)

lemma get_ok:
  "getToken c w = (Inr tok, c1, w1) \<Longrightarrow>
   get p os c w =
     ((if ok (answer w1) then Inr (answer w1)
       else Inl (Error (errorToString (error (answer w1))))),
      (case headers os of None \<Rightarrow> os | Some h \<Rightarrow> os\<lparr>headers := Some (authHeaders tok h)\<rparr>),
      c1, answered (apiRequest ''get'' p os c tok) w1)"
  by (simp add: get_def api_request_ok)

lemma del_ok:
  "getToken c w = (Inr tok, c1, w1) \<Longrightarrow>
   del p c w =
     ((if ok (answer w1) then Inr (answer w1)
       else Inl (Error (errorToString (error (answer w1))))),
      c1, answered (apiRequest ''delete'' p no_opts c tok) w1)"
  by (simp add: del_def api_request_ok)

lemma post_ok:
  "getToken c w = (Inr tok, c1, w1) \<Longrightarrow>
   post p os c w =
     (Inr (answer w1),
      os\<lparr>headers := Some (authHeaders tok [(''Content-Type'', ''application/x-www-form-urlencoded'')])\<rparr>,
      c1,
      answered (apiRequest ''post'' p
        (os\<lparr>headers := Some [(''Content-Type'', ''application/x-www-form-urlencoded'')]\<rparr>) c tok) w1)"
  by (simp add: post_def api_request_ok)

lemma post_fail:
  "getToken c w = (Inl e, c1, w1) \<Longrightarrow>
   post p os c w =
     (Inl e, os\<lparr>headers := Some [(''Content-Type'', ''application/x-www-form-urlencoded'')]\<rparr>,
      c1, w1)"
  by (simp add: post_def api_request_fail)

lemma authHeaders_form:
  "authHeaders tok [(''Content-Type'', ''application/x-www-form-urlencoded'')] =
     [(''Content-Type'', ''application/x-www-form-urlencoded''),
      (''Authorization'', ''Bearer '' @ toStr tok), (''Accept'', ''application/json'')]"
  by (simp add: authHeaders_def)

lemma authHeaders_Nil:
  "authHeaders tok [] = [(''Authorization'', ''Bearer '' @ toStr tok), (''Accept'', ''application/json'')]"
  by (simp add: authHeaders_def)

lemma cached_example:
  "getToken (client_holding (Some 100000)) (world_at 1000 srv) =
     (Inr (JStr ''abc''), client_holding (Some 100000), world_at 1000 srv)"
  by (rule trans [OF getToken_cached [OF tokenPayload_cached [where e = 100000]]])
     (simp_all add: client_holding_def world_at_def)

lemma getProp_defined: "d \<noteq> JUndefined \<Longrightarrow> d \<noteq> JNull \<Longrightarrow> \<exists>v. getProp d k = Inr v"
  by (cases d) simp_all

lemma filterByName_filter:
  "\<forall>d\<in>set ds. d \<noteq> JUndefined \<and> d \<noteq> JNull \<Longrightarrow>
   filterByName deviceName ds =
     Inr (filter (\<lambda>d. getProp d ''displayName'' = Inr (JStr deviceName)) ds)"
proof (induction ds)
  case Nil
  show ?case by simp
next
  case (Cons d ds)
  then obtain v where v: "getProp d ''displayName'' = Inr v"
    using getProp_defined [of d] by auto
  from Cons show ?case
    by (simp add: v)
qed
lemma map_of_authHeaders:
  "map_of (authHeaders tok hs) k =
     (if k = ''Authorization'' then Some (''Bearer '' @ toStr tok)
      else if k = ''Accept'' then
        Some (case map_of hs ''Accept'' of None \<Rightarrow> ''application/json'' | Some a \<Rightarrow> a)
      else map_of hs k)"
  by (auto simp: authHeaders_def Let_def update_conv' split: option.splits)

subsection \<open>Polling with a token that stays valid\<close>

declare getProxy_loop.simps [simp del]

lemma sleep_simps:
  "now (sleep d w) = now w + d"
  "served (sleep d w) = served w"
  "trace (sleep d w) = trace w @ [Sleep d]"
  "server (sleep d w) = server w"
  by (simp_all add: sleep_def)

lemma polled_server: "server (polled q k w) = server w"
  by (induction k) (simp_all add: sleep_simps answered_simps)

lemma polled_served: "served (polled q k w) = served w + k"
  by (induction k) (simp_all add: sleep_simps answered_simps)

lemma polled_now: "now (polled q k w) = attemptTime w k"
  by (induction k) (simp_all add: sleep_simps answered_simps polled_server polled_served)

lemma concat_replicate_snoc: "concat (replicate k xs) @ xs = xs @ concat (replicate k xs)"
  by (induction k) simp_all

lemma polled_trace:
  "trace (polled q k w) = trace w @ concat (replicate k [Request q, Sleep 5000])"
proof (induction k)
  case 0
  show ?case by simp
next
  case (Suc k)
  have "trace (polled q (Suc k) w) =
      trace w @ (concat (replicate k [Request q, Sleep 5000]) @ [Request q, Sleep 5000])"
    by (simp add: sleep_simps answered_simps Suc)
  then show ?case
    by (simp only: concat_replicate_snoc replicate_Suc concat.simps)
qed

lemmas polled_simps = polled_server polled_served polled_now polled_trace

lemma answer_polled: "answer (polled q k w) = attemptReply w k"
  by (simp add: answer_def attemptReply_def polled_simps)

lemma hasResult_JArr: "hasResult (JArr xs) = (xs \<noteq> [])"
  by (simp add: hasResult_def)

lemma get_fresh:
  assumes "tokenFresh c (now w)"
  shows "get (ProxyQuery type sessionId) no_opts c w =
     ((if ok (answer w) then Inr (answer w)
       else Inl (Error (errorToString (error (answer w))))),
      no_opts, c, answered (proxyRequest c type sessionId) w)"
proof -
  have "getToken c w = (Inr (token c), c, w)"
    using assms by (simp add: getToken_cached tokenPayload_fresh)
  from get_ok [OF this] show ?thesis
    by (simp add: no_opts_def apiRequest_def proxyRequest_def toUpperCase_get authHeaders_Nil)
qed

lemma loop_step:
  assumes "i \<le> maxRetries" and "tokenFresh c (now w)"
  shows "getProxy_loop i type sessionId res c w =
     (if \<not> ok (answer w) then
        (Inl (Error (errorToString (error (answer w)))), c,
         answered (proxyRequest c type sessionId) w)
      else if hasResult (body (answer w)) then
        (Inr (Some (answer w)), c, answered (proxyRequest c type sessionId) w)
      else getProxy_loop (i + 1) type sessionId (Some (answer w)) c
             (sleep 5000 (answered (proxyRequest c type sessionId) w)))"
  using assms
  by (subst getProxy_loop.simps) (simp add: get_fresh hasResult_def)

lemma loop_done: "maxRetries < i \<Longrightarrow> getProxy_loop i type sessionId res c w = (Inr res, c, w)"
  by (subst getProxy_loop.simps) simp

lemma loop_skip:
  assumes "i + k \<le> maxRetries + 1"
    and "\<forall>j<k. tokenFresh c (attemptTime w j)"
    and "\<forall>j<k. ok (attemptReply w j) \<and> \<not> hasResult (body (attemptReply w j))"
  shows "getProxy_loop i type sessionId res c w =
     getProxy_loop (i + k) type sessionId
       (if k = 0 then res else Some (attemptReply w (k - 1))) c
       (polled (proxyRequest c type sessionId) k w)"
  using assms
proof (induction k)
  case 0
  show ?case by simp
next
  case (Suc k)
  have "getProxy_loop i type sessionId res c w =
     getProxy_loop (i + k) type sessionId
       (if k = 0 then res else Some (attemptReply w (k - 1))) c
       (polled (proxyRequest c type sessionId) k w)"
    using Suc by simp
  also have "\<dots> = getProxy_loop (i + k + 1) type sessionId (Some (attemptReply w k)) c
       (sleep 5000 (answered (proxyRequest c type sessionId)
          (polled (proxyRequest c type sessionId) k w)))"
    using Suc.prems
    by (subst loop_step) (simp_all add: polled_simps answer_polled)
  finally show ?case by simp
qed

lemma requests_append: "requests (xs @ ys) = requests xs @ requests ys"
  by (simp add: requests_def)

lemma requests_single: "requests [Request q] = [q]"
  by (simp add: requests_def)

lemma requests_polls: "requests (concat (replicate k [Request q, Sleep d])) = replicate k q"
  by (induction k) (simp_all add: requests_def)

lemma issued_polled: "issued w (polled q k w) = replicate k q"
  by (simp add: issued_def polled_trace requests_polls)

lemma issued_polled_answered: "issued w (answered q (polled q k w)) = replicate k q @ [q]"
  by (simp add: issued_def polled_trace answered_simps requests_append requests_polls
        requests_single)

lemma noResult_length:
  "\<not> hasResult b \<Longrightarrow> getProp b ''length'' = Inr n \<Longrightarrow> \<not> truthy n"
  by (cases b) (auto simp: hasResult_def split: if_splits)

lemma hasResult_index0: "hasResult b \<Longrightarrow> \<exists>x. index0 b = Inr x"
  by (cases b) (simp_all add: hasResult_def)

lemma loop_exhausted:
  assumes fresh: "\<forall>j<30. tokenFresh c (attemptTime w j)"
    and empty: "\<forall>j<30. ok (attemptReply w j) \<and> \<not> hasResult (body (attemptReply w j))"
  shows "getProxy_loop 1 type sessionId None c w =
     (Inr (Some (attemptReply w 29)), c, polled (proxyRequest c type sessionId) 30 w)"
proof -
  have "getProxy_loop 1 type sessionId None c w =
      getProxy_loop (1 + 30) type sessionId
        (if (30::nat) = 0 then None else Some (attemptReply w (30 - 1))) c
        (polled (proxyRequest c type sessionId) 30 w)"
    using fresh empty by (intro loop_skip) (simp_all add: maxRetries_def)
  then show ?thesis
    by (simp add: loop_done maxRetries_def)
qed

lemma loop_stops:
  assumes n: "n < 30"
    and fresh: "\<forall>j<30. tokenFresh c (attemptTime w j)"
    and empty: "\<forall>j<n. ok (attemptReply w j) \<and> \<not> hasResult (body (attemptReply w j))"
    and stop: "\<not> ok (attemptReply w n) \<or> hasResult (body (attemptReply w n))"
  shows "getProxy_loop 1 type sessionId None c w =
     ((if \<not> ok (attemptReply w n)
       then Inl (Error (errorToString (error (attemptReply w n))))
       else Inr (Some (attemptReply w n))), c,
      answered (proxyRequest c type sessionId) (polled (proxyRequest c type sessionId) n w))"
proof -
  have "getProxy_loop 1 type sessionId None c w =
      getProxy_loop (1 + n) type sessionId
        (if n = 0 then None else Some (attemptReply w (n - 1))) c
        (polled (proxyRequest c type sessionId) n w)"
    using n fresh empty by (intro loop_skip) (simp_all add: maxRetries_def)
  also have "\<dots> =
     ((if \<not> ok (attemptReply w n)
       then Inl (Error (errorToString (error (attemptReply w n))))
       else Inr (Some (attemptReply w n))), c,
      answered (proxyRequest c type sessionId) (polled (proxyRequest c type sessionId) n w))"
    using n fresh stop
    by (subst loop_step) (auto simp: maxRetries_def polled_simps answer_polled)
  finally show ?thesis .
qed

lemma getProxy_exhausted:
  assumes fresh: "\<forall>j<30. tokenFresh c (attemptTime w j)"
    and empty: "\<forall>j<30. ok (attemptReply w j) \<and> \<not> hasResult (body (attemptReply w j))"
  shows "getProxy type sessionId c w =
     ((case getProp (body (attemptReply w 29)) ''length'' of
         Inl e \<Rightarrow> Inl e
       | Inr n \<Rightarrow> Inl (Error (''Could not get '' @ type @ '' proxy session for '' @ sessionId))),
      c, polled (proxyRequest c type sessionId) 30 w)"
proof -
  have last: "ok (attemptReply w 29)" "\<not> hasResult (body (attemptReply w 29))"
    using empty by simp_all
  show ?thesis
    unfolding getProxy_def loop_exhausted [OF fresh empty]
    using last noResult_length [OF last(2)]
    by (auto split: sum.splits)
qed

lemma getProxy_stops:
  assumes n: "n < 30"
    and fresh: "\<forall>j<30. tokenFresh c (attemptTime w j)"
    and empty: "\<forall>j<n. ok (attemptReply w j) \<and> \<not> hasResult (body (attemptReply w j))"
    and stop: "\<not> ok (attemptReply w n) \<or> hasResult (body (attemptReply w n))"
  shows "getProxy type sessionId c w =
     ((if \<not> ok (attemptReply w n)
       then Inl (Error (errorToString (error (attemptReply w n))))
       else index0 (body (attemptReply w n))), c,
      answered (proxyRequest c type sessionId) (polled (proxyRequest c type sessionId) n w))"
proof (cases "ok (attemptReply w n)")
  case False
  then show ?thesis
    unfolding getProxy_def loop_stops [OF n fresh empty stop]
    by simp
next
  case True
  with stop have has: "hasResult (body (attemptReply w n))"
    by simp
  then obtain x where x: "index0 (body (attemptReply w n)) = Inr x"
    using hasResult_index0 by blast
  from has obtain len where len: "getProp (body (attemptReply w n)) ''length'' = Inr len" "truthy len"
    by (auto simp: hasResult_def split: sum.splits)
  show ?thesis
    unfolding getProxy_def loop_stops [OF n fresh empty stop]
    using True by (simp add: x len)
qed

lemma first_stop:
  assumes "\<not> (\<forall>j<30. ok (attemptReply w j) \<and> \<not> hasResult (body (attemptReply w j)))"
  obtains n where "n < 30"
    and "\<forall>j<n. ok (attemptReply w j) \<and> \<not> hasResult (body (attemptReply w j))"
    and "\<not> ok (attemptReply w n) \<or> hasResult (body (attemptReply w n))"
proof -
  define stop where
    "stop j \<longleftrightarrow> j < 30 \<and> (\<not> ok (attemptReply w j) \<or> hasResult (body (attemptReply w j)))" for j :: nat
  from assms have "\<exists>j. stop j"
    unfolding stop_def by blast
  then have "\<exists>n. stop n \<and> (\<forall>m<n. \<not> stop m)"
    by (rule iffD1 [OF exists_least_iff])
  then obtain n where n: "stop n" and least: "\<forall>m<n. \<not> stop m"
    by blast
  show thesis
  proof (rule that [of n])
    show "n < 30"
      using n by (simp add: stop_def)
    show "\<not> ok (attemptReply w n) \<or> hasResult (body (attemptReply w n))"
      using n by (simp add: stop_def)
    show "\<forall>j<n. ok (attemptReply w j) \<and> \<not> hasResult (body (attemptReply w j))"
    proof (intro allI impI)
      fix j assume "j < n"
      with least have "\<not> stop j" by simp
      moreover have "j < 30" using \<open>j < n\<close> n by (simp add: stop_def)
      ultimately show "ok (attemptReply w j) \<and> \<not> hasResult (body (attemptReply w j))"
        by (simp add: stop_def)
    qed
  qed
qed

lemma attemptTime_constant:
  "\<forall>j. fst (server w j) = l \<Longrightarrow> attemptTime w k = now w + (l + 5000) * int k"
  by (induction k) (simp_all add: algebra_simps)

lemma fresh_example:
  "\<forall>k<30. tokenFresh (client_holding (Some 10000000))
             (attemptTime (world_at 1000 (\<lambda>k. (20, rs k))) k)"
proof (intro allI impI)
  fix k :: nat
  assume "k < 30"
  have "attemptTime (world_at 1000 (\<lambda>k. (20, rs k))) k = 1000 + 5020 * int k"
    using attemptTime_constant [of "world_at 1000 (\<lambda>k. (20, rs k))" 20 k]
    by (simp add: world_at_def)
  then show "tokenFresh (client_holding (Some 10000000))
               (attemptTime (world_at 1000 (\<lambda>k. (20, rs k))) k)"
    using \<open>k < 30\<close> by (simp add: tokenFresh_def client_holding_def num_gt_def)
qed

subsection \<open>Counting the proxy queries\<close>

lemma queries_simps:
  "queries [] = 0"
  "queries (evs @ evs') = queries evs + queries evs'"
  "queries (Sleep d # evs) = queries evs"
  "queries [Request (tokenRequest c pl)] = 0"
  "queries [Request r] \<le> 1"
  by (simp_all add: queries_def requests_def isProxyQuery_def tokenRequest_def)

lemma getToken_events:
  "\<exists>evs. trace (snd (snd (getToken c w))) = trace w @ evs \<and> queries evs = 0"
proof (cases "tokenPayload c w")
  case None
  then show ?thesis
    by (simp add: getToken_cached queries_simps)
next
  case (Some pl)
  then show ?thesis
    by (simp add: getToken_sends answered_simps queries_simps)
qed

lemma get_events:
  "\<exists>evs. trace (snd (snd (snd (get p os c w)))) = trace w @ evs \<and> queries evs \<le> 1"
proof -
  obtain r c1 w1 where tok: "getToken c w = (r, c1, w1)"
    by (cases "getToken c w") auto
  from getToken_events [of c w] tok
  obtain evs where evs: "trace w1 = trace w @ evs" "queries evs = 0"
    by auto
  show ?thesis
  proof (cases r)
    case (Inl e)
    with tok evs show ?thesis
      by (simp add: get_def api_request_fail)
  next
    case (Inr t)
    with tok have "trace (snd (snd (snd (get p os c w)))) =
        trace w @ (evs @ [Request (apiRequest ''get'' p os c t)])"
      by (simp add: get_ok answered_simps evs)
    moreover have "queries (evs @ [Request (apiRequest ''get'' p os c t)]) \<le> 1"
      using evs(2) queries_simps(5) [of "apiRequest ''get'' p os c t"]
      by (simp add: queries_simps(2))
    ultimately show ?thesis
      by blast
  qed
qed

lemma loop_events:
  "\<exists>evs. trace (snd (snd (getProxy_loop i type sessionId res c w))) = trace w @ evs
         \<and> queries evs \<le> maxRetries + 1 - i"
proof (induction "maxRetries + 1 - i" arbitrary: i res c w)
  case 0
  then have "maxRetries < i" by simp
  then show ?case
    by (simp add: loop_done queries_simps)
next
  case (Suc n)
  then have i: "i \<le> maxRetries" by simp
  obtain r os1 c1 w1 where g: "get (ProxyQuery type sessionId) no_opts c w = (r, os1, c1, w1)"
    by (cases "get (ProxyQuery type sessionId) no_opts c w") auto
  from get_events [of "ProxyQuery type sessionId" no_opts c w] g
  obtain evs where evs: "trace w1 = trace w @ evs" "queries evs \<le> 1"
    by auto
  show ?case
  proof (cases "\<exists>res1. r = Inr res1 \<and> \<not> (ok res1 \<and> hasResult (body res1))")
    case False
    then have "snd (snd (getProxy_loop i type sessionId res c w)) = w1"
      using i g by (subst getProxy_loop.simps) (auto simp: hasResult_def split: sum.splits)
    with evs Suc(2) show ?thesis
      by auto
  next
    case True
    then obtain res1 where r: "r = Inr res1" and go: "\<not> (ok res1 \<and> hasResult (body res1))"
      by blast
    have step: "getProxy_loop i type sessionId res c w =
        getProxy_loop (i + 1) type sessionId (Some res1) c1 (sleep 5000 w1)"
      using i g r go by (subst getProxy_loop.simps) (auto simp: hasResult_def)
    have "n = maxRetries + 1 - (i + 1)"
      using Suc(2) by simp
    from Suc(1) [OF this, of "Some res1" c1 "sleep 5000 w1"]
    obtain evs' where evs': "trace (snd (snd (getProxy_loop (i + 1) type sessionId (Some res1) c1
          (sleep 5000 w1)))) = trace (sleep 5000 w1) @ evs'"
        "queries evs' \<le> maxRetries + 1 - (i + 1)"
      by blast
    have "trace (snd (snd (getProxy_loop i type sessionId res c w))) =
        trace w @ (evs @ [Sleep 5000] @ evs')"
      unfolding step evs'(1) by (simp add: evs sleep_simps)
    moreover have "queries (evs @ [Sleep 5000] @ evs') \<le> maxRetries + 1 - i"
      using evs(2) evs'(2) i by (simp add: queries_simps)
    ultimately show ?thesis
      by blast
  qed
qed

lemma getProxy_world:
  "snd (snd (getProxy type sessionId c w)) = snd (snd (getProxy_loop 1 type sessionId None c w))"
  unfolding getProxy_def
  by (cases "getProxy_loop 1 type sessionId None c w") (auto split: sum.splits option.splits)

lemma getProxy_queries:
  "length (filter isProxyQuery (issued w (snd (snd (getProxy type sessionId c w))))) \<le> 30"
proof -
  from loop_events [of 1 type sessionId None c w]
  obtain evs where "trace (snd (snd (getProxy_loop 1 type sessionId None c w))) = trace w @ evs"
    and "queries evs \<le> maxRetries + 1 - 1"
    by blast
  then show ?thesis
    by (simp add: getProxy_world issued_def queries_def maxRetries_def)
qed

subsection \<open>Calls answered from the cache\<close>

lemma tokenPayload_None_iff: "tokenPayload c w = None \<longleftrightarrow> tokenFresh c (now w)"
  by (auto simp: tokenPayload_def tokenFresh_def num_gt_def split: option.splits)

lemma issued_self: "issued w (w\<lparr>now := t\<rparr>) = []"
  by (simp add: issued_def requests_def)

subsection \<open>Polling in general\<close>

lemma attemptState_Suc:
  "attemptResult type sessionId c w k = (r, c1, w1) \<Longrightarrow>
   attemptState type sessionId c w (Suc k) = (c1, sleep 5000 w1)"
  by (auto simp: attemptResult_def split: prod.splits)

lemma get_returns_ok: "get p os c w = (Inr r, os1, c1, w1) \<Longrightarrow> ok r"
  by (auto simp: get_def split: prod.splits sum.splits if_splits)

lemma attemptResult_ok: "fst (attemptResult type sessionId c w k) = Inr r \<Longrightarrow> ok r"
  by (auto simp: attemptResult_def split: prod.splits dest: get_returns_ok)

lemma loop_attempt:
  assumes "i \<le> maxRetries"
    and "attemptState type sessionId c w k = (ck, wk)"
    and "attemptResult type sessionId c w k = (r, c1, w1)"
  shows "getProxy_loop i type sessionId res ck wk =
     (case r of
        Inl e \<Rightarrow> (Inl e, c1, w1)
      | Inr res1 \<Rightarrow>
          if hasResult (body res1) then (Inr (Some res1), c1, w1)
          else getProxy_loop (i + 1) type sessionId (Some res1) c1 (sleep 5000 w1))"
proof -
  obtain os1 where g: "get (ProxyQuery type sessionId) no_opts ck wk = (r, os1, c1, w1)"
    using assms(2,3) by (auto simp: attemptResult_def split: prod.splits)
  show ?thesis
  proof (cases r)
    case (Inl e)
    with g assms(1) show ?thesis
      by (subst getProxy_loop.simps) simp
  next
    case (Inr res1)
    with g have "ok res1"
      by (auto dest: get_returns_ok)
    with g Inr assms(1) show ?thesis
      by (subst getProxy_loop.simps) (simp add: hasResult_def)
  qed
qed

lemma loop_skip_attempts:
  assumes "i + k \<le> maxRetries + 1"
    and "\<forall>j<k. \<exists>r. fst (attemptResult type sessionId c w j) = Inr r \<and> \<not> hasResult (body r)"
  shows "getProxy_loop i type sessionId res c w =
     getProxy_loop (i + k) type sessionId
       (if k = 0 then res else lastResponse type sessionId c w (k - 1))
       (fst (attemptState type sessionId c w k)) (snd (attemptState type sessionId c w k))"
  using assms
proof (induction k)
  case 0
  show ?case by simp
next
  case (Suc k)
  obtain ck wk where st: "attemptState type sessionId c w k = (ck, wk)"
    by (cases "attemptState type sessionId c w k") auto
  obtain r c1 w1 where ar: "attemptResult type sessionId c w k = (r, c1, w1)"
    by (cases "attemptResult type sessionId c w k") auto
  from Suc.prems(2) ar obtain res1 where r: "r = Inr res1" "\<not> hasResult (body res1)"
    by fastforce
  have "getProxy_loop i type sessionId res c w =
     getProxy_loop (i + k) type sessionId
       (if k = 0 then res else lastResponse type sessionId c w (k - 1)) ck wk"
    using Suc st by simp
  also have "\<dots> = getProxy_loop (i + k + 1) type sessionId (Some res1) c1 (sleep 5000 w1)"
    using Suc.prems(1) r by (subst loop_attempt [OF _ st ar]) simp_all
  also have "\<dots> = getProxy_loop (i + Suc k) type sessionId
       (if Suc k = 0 then res else lastResponse type sessionId c w (Suc k - 1))
       (fst (attemptState type sessionId c w (Suc k)))
       (snd (attemptState type sessionId c w (Suc k)))"
    using ar r
    by (simp add: attemptState_Suc [OF ar] lastResponse_def del: attemptState.simps)
  finally show ?case .
qed

lemma getProxy_exhausted_attempts:
  assumes empty: "\<forall>j<30. \<exists>r. fst (attemptResult type sessionId c w j) = Inr r \<and> \<not> hasResult (body r)"
    and last: "fst (attemptResult type sessionId c w 29) = Inr r"
  shows "getProxy type sessionId c w =
     ((case getProp (body r) ''length'' of
         Inl e \<Rightarrow> Inl e
       | Inr n \<Rightarrow> Inl (Error (''Could not get '' @ type @ '' proxy session for '' @ sessionId))),
      attemptState type sessionId c w 30)"
proof -
  have "getProxy_loop 1 type sessionId None c w =
      getProxy_loop (1 + 30) type sessionId
        (if (30::nat) = 0 then None else lastResponse type sessionId c w (30 - 1))
        (fst (attemptState type sessionId c w 30)) (snd (attemptState type sessionId c w 30))"
    using empty by (intro loop_skip_attempts) (simp_all add: maxRetries_def)
  then have loop: "getProxy_loop 1 type sessionId None c w =
      (Inr (Some r), attemptState type sessionId c w 30)"
    using last by (simp add: loop_done maxRetries_def lastResponse_def)
  from empty have "\<exists>r'. fst (attemptResult type sessionId c w 29) = Inr r' \<and> \<not> hasResult (body r')"
    by simp
  with last have no: "\<not> hasResult (body r)"
    by auto
  from last have "ok r"
    by (rule attemptResult_ok)
  then show ?thesis
    unfolding getProxy_def loop
    using noResult_length [OF no]
    by (cases "attemptState type sessionId c w 30") (auto split: sum.splits)
qed

lemma getProxy_stops_attempts:
  assumes n: "n < 30"
    and empty: "\<forall>j<n. \<exists>r. fst (attemptResult type sessionId c w j) = Inr r \<and> \<not> hasResult (body r)"
    and stop: "\<forall>r. fst (attemptResult type sessionId c w n) = Inr r \<longrightarrow> hasResult (body r)"
  shows "getProxy type sessionId c w =
     ((case fst (attemptResult type sessionId c w n) of
         Inl e \<Rightarrow> Inl e
       | Inr r \<Rightarrow> index0 (body r)),
      snd (attemptResult type sessionId c w n))"
proof -
  obtain ck wk where st: "attemptState type sessionId c w n = (ck, wk)"
    by (cases "attemptState type sessionId c w n") auto
  obtain r c1 w1 where ar: "attemptResult type sessionId c w n = (r, c1, w1)"
    by (cases "attemptResult type sessionId c w n") auto
  have "getProxy_loop 1 type sessionId None c w =
      getProxy_loop (1 + n) type sessionId
        (if n = 0 then None else lastResponse type sessionId c w (n - 1))
        (fst (attemptState type sessionId c w n)) (snd (attemptState type sessionId c w n))"
    using n empty by (intro loop_skip_attempts) (simp_all add: maxRetries_def)
  also have "\<dots> = (case r of Inl e \<Rightarrow> (Inl e, c1, w1) | Inr res1 \<Rightarrow> (Inr (Some res1), c1, w1))"
    using n stop ar
    by (simp only: st fst_conv snd_conv, subst loop_attempt [OF _ st ar])
       (auto simp: maxRetries_def split: sum.splits)
  finally have loop: "getProxy_loop 1 type sessionId None c w =
      (case r of Inl e \<Rightarrow> (Inl e, c1, w1) | Inr res1 \<Rightarrow> (Inr (Some res1), c1, w1))" .
  show ?thesis
  proof (cases r)
    case (Inl e)
    then show ?thesis
      unfolding getProxy_def loop by (simp add: ar)
  next
    case (Inr res1)
    with ar stop have has: "hasResult (body res1)"
      by simp
    from ar Inr have "ok res1"
      using attemptResult_ok [of type sessionId c w n res1] by simp
    moreover from has obtain x where "index0 (body res1) = Inr x"
      using hasResult_index0 by blast
    moreover from has obtain len where "getProp (body res1) ''length'' = Inr len" "truthy len"
      by (auto simp: hasResult_def split: sum.splits)
    ultimately show ?thesis
      unfolding getProxy_def loop using Inr by (simp add: ar)
  qed
qed

lemma first_stop_attempts:
  assumes "\<not> (\<forall>j<30. \<exists>r. fst (attemptResult type sessionId c w j) = Inr r \<and> \<not> hasResult (body r))"
  obtains n where "n < 30"
    and "\<forall>j<n. \<exists>r. fst (attemptResult type sessionId c w j) = Inr r \<and> \<not> hasResult (body r)"
    and "\<forall>r. fst (attemptResult type sessionId c w n) = Inr r \<longrightarrow> hasResult (body r)"
proof -
  define stop where
    "stop j \<longleftrightarrow> j < 30 \<and> \<not> (\<exists>r. fst (attemptResult type sessionId c w j) = Inr r \<and> \<not> hasResult (body r))"
    for j :: nat
  from assms have "\<exists>j. stop j"
    unfolding stop_def by blast
  then have "\<exists>n. stop n \<and> (\<forall>m<n. \<not> stop m)"
    by (rule iffD1 [OF exists_least_iff])
  then obtain n where n: "stop n" and least: "\<forall>m<n. \<not> stop m"
    by blast
  show thesis
  proof (rule that [of n])
    show "n < 30"
      using n by (simp add: stop_def)
    show "\<forall>r. fst (attemptResult type sessionId c w n) = Inr r \<longrightarrow> hasResult (body r)"
      using n by (auto simp: stop_def)
    show "\<forall>j<n. \<exists>r. fst (attemptResult type sessionId c w j) = Inr r \<and> \<not> hasResult (body r)"
    proof (intro allI impI)
      fix j assume "j < n"
      with least have "\<not> stop j" by simp
      moreover have "j < 30" using \<open>j < n\<close> n by (simp add: stop_def)
      ultimately show "\<exists>r. fst (attemptResult type sessionId c w j) = Inr r \<and> \<not> hasResult (body r)"
        by (simp add: stop_def)
    qed
  qed
qed

lemma attemptState_fresh:
  assumes "\<forall>j<k. tokenFresh c (attemptTime w j)"
    and "\<forall>j<k. ok (attemptReply w j) \<and> \<not> hasResult (body (attemptReply w j))"
  shows "attemptState type sessionId c w k = (c, polled (proxyRequest c type sessionId) k w)"
  using assms
proof (induction k)
  case 0
  show ?case by simp
next
  case (Suc k)
  then have st: "attemptState type sessionId c w k = (c, polled (proxyRequest c type sessionId) k w)"
    by simp
  from Suc.prems have "tokenFresh c (now (polled (proxyRequest c type sessionId) k w))"
    by (simp add: polled_now)
  from get_fresh [OF this] show ?case
    by (simp add: st)
qed

lemma attemptResult_fresh:
  assumes "\<forall>j\<le>k. tokenFresh c (attemptTime w j)"
    and "\<forall>j<k. ok (attemptReply w j) \<and> \<not> hasResult (body (attemptReply w j))"
  shows "attemptResult type sessionId c w k =
     ((if ok (attemptReply w k) then Inr (attemptReply w k)
       else Inl (Error (errorToString (error (attemptReply w k))))),
      c, answered (proxyRequest c type sessionId) (polled (proxyRequest c type sessionId) k w))"
proof -
  from assms have "attemptState type sessionId c w k =
      (c, polled (proxyRequest c type sessionId) k w)"
    by (intro attemptState_fresh) simp_all
  moreover from assms(1) have "tokenFresh c (now (polled (proxyRequest c type sessionId) k w))"
    by (simp add: polled_now)
  ultimately show ?thesis
    by (simp add: attemptResult_def get_fresh answer_polled)
qed

subsection \<open>The errors of get\<close>

lemma getProp_error: "getProp b k = Inl e \<Longrightarrow> e = TypeError"
  by (cases b) simp_all

lemma toNumber_error: "toNumber v = Inl e \<Longrightarrow> e = Unmodelled"
  by (cases v) simp_all

lemma storeToken_error: "storeToken res c w = (Inl e, c1, w1) \<Longrightarrow> e = TypeError \<or> e = Unmodelled"
  by (auto simp: storeToken_def Let_def split: sum.splits dest: getProp_error toNumber_error)

lemma errorToString_prefix: "take 14 (errorToString e) \<noteq> ''Could not get ''"
  by (simp add: errorToString_def split: option.splits)

lemma getToken_error_prefix:
  "fst (getToken c w) = Inl (Error msg) \<Longrightarrow> take 14 msg \<noteq> ''Could not get ''"
proof (cases "tokenPayload c w")
  case None
  assume "fst (getToken c w) = Inl (Error msg)"
  with None show ?thesis
    by (simp add: getToken_cached)
next
  case (Some pl)
  assume err: "fst (getToken c w) = Inl (Error msg)"
  show ?thesis
  proof (cases "ok (answer w)")
    case False
    with Some err show ?thesis
      by (auto simp: getToken_def send_request_eq split: sum.splits dest: getProp_error)
  next
    case True
    obtain r c1 w1 where st: "storeToken (answer w) c (answered (tokenRequest c pl) w) = (r, c1, w1)"
      by (cases "storeToken (answer w) c (answered (tokenRequest c pl) w)") auto
    with Some True err have "r = Inl (Error msg)"
      by (simp add: getToken_def send_request_eq)
    with st storeToken_error [of "answer w" c "answered (tokenRequest c pl) w" "Error msg" c1 w1]
    show ?thesis
      by simp
  qed
qed

lemma get_error_prefix:
  "fst (get p os c w) = Inl (Error msg) \<Longrightarrow> take 14 msg \<noteq> ''Could not get ''"
proof -
  assume err: "fst (get p os c w) = Inl (Error msg)"
  obtain r c1 w1 where tok: "getToken c w = (r, c1, w1)"
    by (cases "getToken c w") auto
  show ?thesis
  proof (cases r)
    case (Inl e)
    with tok err have "fst (getToken c w) = Inl (Error msg)"
      by (simp add: get_def api_request_fail)
    then show ?thesis
      by (rule getToken_error_prefix)
  next
    case (Inr t)
    with tok err have "msg = errorToString (error (answer w1))"
      by (simp add: get_ok split: if_splits)
    then show ?thesis
      by (simp only: errorToString_prefix not_False_eq_True)
  qed
qed

lemma attemptResult_error_prefix:
  "fst (attemptResult type sessionId c w k) = Inl (Error msg) \<Longrightarrow>
   take 14 msg \<noteq> ''Could not get ''"
proof -
  assume err: "fst (attemptResult type sessionId c w k) = Inl (Error msg)"
  obtain ck wk where st: "attemptState type sessionId c w k = (ck, wk)"
    by (cases "attemptState type sessionId c w k") auto
  have "fst (attemptResult type sessionId c w k) = fst (get (ProxyQuery type sessionId) no_opts ck wk)"
    by (simp add: attemptResult_def st split: prod.splits)
  with err show ?thesis
    by (simp add: get_error_prefix)
qed

subsection \<open>The concrete servers\<close>

lemma attemptReply_example: "attemptReply (world_at t (\<lambda>k. (l, rs k))) k = rs k"
  by (simp add: attemptReply_def world_at_def)

lemma attemptResult_example:
  assumes "k < 30" and "\<forall>j<k. ok (rs j) \<and> \<not> hasResult (body (rs j))"
  shows "attemptResult type sessionId (client_holding (Some 10000000))
           (world_at 1000 (\<lambda>k. (20, rs k))) k =
     ((if ok (rs k) then Inr (rs k) else Inl (Error (errorToString (error (rs k))))),
      client_holding (Some 10000000),
      answered (proxyRequest (client_holding (Some 10000000)) type sessionId)
        (polled (proxyRequest (client_holding (Some 10000000)) type sessionId) k
           (world_at 1000 (\<lambda>k. (20, rs k)))))"
proof -
  have "\<forall>j\<le>k. tokenFresh (client_holding (Some 10000000))
                 (attemptTime (world_at 1000 (\<lambda>k. (20, rs k))) j)"
    using assms(1) fresh_example [of rs] by simp
  from attemptResult_fresh [OF this, of type sessionId] assms(2) show ?thesis
    by (simp add: attemptReply_example)
qed

section \<open>The three cases of getToken\<close>




section \<open>Which grant a held token leads to\<close>

text \<open>
  Claim C1 says that a client holding a token whose stored expiration has passed sends a
  refresh grant. It does not: the first test of \<^verbatim>\<open>getToken\<close> sends the password grant
  whenever the clock has passed the expiration. Here the client holds token \<^verbatim>\<open>abc\<close> with
  expiration 1000 and the clock reads 2000; the one request sent is a password grant.
\<close>

theorem getToken_expired_counterexample:
  "truthy (token (client_holding (Some 1000)))
   \<and> tokenExpiration (client_holding (Some 1000)) = Some 1000
   \<and> 1000 < now (world_at 2000 (\<lambda>k. (20, token_reply)))
   \<and> map grant_type (issued (world_at 2000 (\<lambda>k. (20, token_reply)))
        (snd (snd (getToken (client_holding (Some 1000))
                            (world_at 2000 (\<lambda>k. (20, token_reply)))))))
     = [Some (JStr ''password'')]
   \<and> map grant_type (issued (world_at 2000 (\<lambda>k. (20, token_reply)))
        (snd (snd (getToken (client_holding (Some 1000))
                            (world_at 2000 (\<lambda>k. (20, token_reply)))))))
     \<noteq> [Some (JStr ''refresh_token'')]"
  by (simp add: example_client_def client_holding_def world_at_def constructor_def
        getToken_def tokenPayload_def num_gt_def send_request_def token_reply_def storeToken_def
        tokenRequest_def issued_def requests_def grant_type_def num_add_def num_mul_def
        newDate_def)

text \<open>
  Claim C1, amended. For every client holding a token with a stored expiration: when the
  clock has passed the expiration, \<^verbatim>\<open>getToken\<close> sends exactly one request and it is a
  password grant; when the expiration has not passed and is at most 60 seconds away,
  \<^verbatim>\<open>getToken\<close> sends exactly one request and it is a refresh-token grant.
\<close>

theorem getToken_grant_by_expiry:
  "truthy (token c) \<and> tokenExpiration c = Some e \<longrightarrow>
     (e < now w \<longrightarrow>
        map grant_type (issued w (snd (snd (getToken c w)))) = [Some (JStr ''password'')])
     \<and> (now w \<le> e \<and> e \<le> now w + 60000 \<longrightarrow>
        map grant_type (issued w (snd (snd (getToken c w)))) = [Some (JStr ''refresh_token'')])"
proof (intro impI conjI)
  assume h: "truthy (token c) \<and> tokenExpiration c = Some e" and "e < now w"
  then have "\<not> truthy (token c) \<or> (\<exists>e. tokenExpiration c = Some e \<and> e < now w)"
    by simp
  from getToken_sends [OF tokenPayload_password [OF this]]
  show "map grant_type (issued w (snd (snd (getToken c w)))) = [Some (JStr ''password'')]"
    by (simp add: issued_answered grant_type_tokenRequest)
next
  assume h: "truthy (token c) \<and> tokenExpiration c = Some e"
    and "now w \<le> e \<and> e \<le> now w + 60000"
  then have "tokenPayload c w =
      Some (JObj [(''client_id'', JStr ''testdroid-cloud-api''),
                  (''grant_type'', JStr ''refresh_token''),
                  (''refresh_token'', refreshToken c)])"
    by (simp add: tokenPayload_refresh)
  from getToken_sends [OF this]
  show "map grant_type (issued w (snd (snd (getToken c w)))) = [Some (JStr ''refresh_token'')]"
    by (simp add: issued_answered grant_type_tokenRequest)
qed

theorem getToken_grant_by_expiry_witness:
  "map grant_type (issued (world_at 2000 (\<lambda>k. (20, token_reply)))
      (snd (snd (getToken (client_holding (Some 1000))
                          (world_at 2000 (\<lambda>k. (20, token_reply)))))))
     = [Some (JStr ''password'')]
   \<and> map grant_type (issued (world_at 50000 (\<lambda>k. (20, token_reply)))
      (snd (snd (getToken (client_holding (Some 100000))
                          (world_at 50000 (\<lambda>k. (20, token_reply)))))))
     = [Some (JStr ''refresh_token'')]"
  using getToken_grant_by_expiry [of "client_holding (Some 1000)" 1000
                                     "world_at 2000 (\<lambda>k. (20, token_reply))"]
        getToken_grant_by_expiry [of "client_holding (Some 100000)" 100000
                                     "world_at 50000 (\<lambda>k. (20, token_reply))"]
  by (simp add: example_client_def client_holding_def world_at_def constructor_def)

section \<open>Reuse of the cached token\<close>

text \<open>
  Claim C5 says that for every client with a cached token, two successive calls of
  \<^verbatim>\<open>getToken\<close> within the token's validity window send exactly one request in total.
  They send none: a client that already holds a valid token answers both calls from the
  cache. Here the client holds token \<^verbatim>\<open>abc\<close> with expiration 100000 and the calls are
  made at times 1000 and 2000.
\<close>

theorem getToken_cached_twice_counterexample:
  "truthy (token (client_holding (Some 100000)))
   \<and> getToken (client_holding (Some 100000)) (world_at 1000 (\<lambda>k. (20, token_reply)))
       = (Inr (JStr ''abc''), client_holding (Some 100000),
          world_at 1000 (\<lambda>k. (20, token_reply)))
   \<and> getToken (client_holding (Some 100000)) (world_at 2000 (\<lambda>k. (20, token_reply)))
       = (Inr (JStr ''abc''), client_holding (Some 100000),
          world_at 2000 (\<lambda>k. (20, token_reply)))
   \<and> issued (world_at 1000 (\<lambda>k. (20, token_reply)))
        (snd (snd (getToken (client_holding (Some 100000))
                            (world_at 2000 (\<lambda>k. (20, token_reply)))))) = []"
  by (simp add: getToken_def tokenPayload_def client_holding_def world_at_def num_gt_def
        issued_def requests_def)

text \<open>
  Claim C5, amended. Take two successive calls of \<^verbatim>\<open>getToken\<close>: the first returns \<open>t\<close>,
  a token the client then holds, and the second is made at any time \<open>t2\<close> more than 60
  seconds before the stored expiration. Then the second call returns the same token
  \<open>t\<close>, sends no request and leaves token, refresh token and expiration as they were.
  The two calls together send at most one request: exactly one, to \<^verbatim>\<open>oauth/token\<close>, when
  the first call has to acquire the token, and none when the first call is itself
  answered from the cache.
\<close>

theorem getToken_reuse:
  assumes first: "getToken c w = (Inr t, c1, w1)"
    and held: "truthy t"
    and expiry: "tokenExpiration c1 = Some e"
    and valid: "t2 + 60000 < e"
  shows "getToken c1 (w1\<lparr>now := t2\<rparr>) = (Inr t, c1, w1\<lparr>now := t2\<rparr>)
    \<and> (tokenFresh c (now w) \<longrightarrow>
          issued w (snd (snd (getToken c1 (w1\<lparr>now := t2\<rparr>)))) = [])
    \<and> (\<not> tokenFresh c (now w) \<longrightarrow>
          (\<exists>r. issued w (snd (snd (getToken c1 (w1\<lparr>now := t2\<rparr>)))) = [r]
               \<and> req_url r = UrlJoin (baseUrl c) (Path ''oauth/token'')))"
proof -
  have tok: "token c1 = t"
  proof (cases "tokenPayload c w")
    case None
    with first show ?thesis
      by (auto simp: getToken_cached)
  next
    case (Some pl)
    from getToken_stores [OF first Some] show ?thesis
      by simp
  qed
  have "tokenPayload c1 (w1\<lparr>now := t2\<rparr>) = None"
    using held tok expiry valid by (intro tokenPayload_cached [where e = e]) simp_all
  then have second: "getToken c1 (w1\<lparr>now := t2\<rparr>) = (Inr t, c1, w1\<lparr>now := t2\<rparr>)"
    using tok by (simp add: getToken_cached)
  have cached: "issued w (w1\<lparr>now := t2\<rparr>) = []" if "tokenFresh c (now w)"
  proof -
    from that have "tokenPayload c w = None"
      by (simp add: tokenPayload_None_iff)
    with first have "w1 = w"
      by (auto simp: getToken_cached)
    then show ?thesis
      by (simp add: issued_self)
  qed
  have acquired: "\<exists>r. issued w (w1\<lparr>now := t2\<rparr>) = [r]
      \<and> req_url r = UrlJoin (baseUrl c) (Path ''oauth/token'')" if "\<not> tokenFresh c (now w)"
  proof -
    from that obtain pl where pl: "tokenPayload c w = Some pl"
      by (auto simp: tokenPayload_None_iff [symmetric])
    from getToken_stores [OF first pl] have "w1 = answered (tokenRequest c pl) w"
      by simp
    then have "issued w (w1\<lparr>now := t2\<rparr>) = [tokenRequest c pl]"
      by (simp add: issued_def requests_def answered_simps)
    then show ?thesis
      by (simp add: tokenRequest_def)
  qed
  from second cached acquired show ?thesis
    by simp
qed

theorem getToken_reuse_witness:
  "getToken example_client (world_at 1000 (\<lambda>k. (20, token_reply))) =
     (Inr (JStr ''abc''),
      example_client\<lparr>token := JStr ''abc'', refreshToken := JStr ''xyz'',
                     tokenExpiration := Some 3601020\<rparr>,
      \<lparr>now = 1020, served = 1,
       trace = [Request (tokenRequest example_client
                  (JObj [(''client_id'', JStr ''testdroid-cloud-api''),
                         (''grant_type'', JStr ''password''),
                         (''username'', JStr ''joe@example.com''),
                         (''password'', JStr ''123456'')]))],
       server = (\<lambda>k. (20, token_reply))\<rparr>)
   \<and> getToken (example_client\<lparr>token := JStr ''abc'', refreshToken := JStr ''xyz'',
                               tokenExpiration := Some 3601020\<rparr>)
       \<lparr>now = 5000, served = 1,
        trace = [Request (tokenRequest example_client
                  (JObj [(''client_id'', JStr ''testdroid-cloud-api''),
                         (''grant_type'', JStr ''password''),
                         (''username'', JStr ''joe@example.com''),
                         (''password'', JStr ''123456'')]))],
        server = (\<lambda>k. (20, token_reply))\<rparr>
     = (Inr (JStr ''abc''),
        example_client\<lparr>token := JStr ''abc'', refreshToken := JStr ''xyz'',
                       tokenExpiration := Some 3601020\<rparr>,
        \<lparr>now = 5000, served = 1,
         trace = [Request (tokenRequest example_client
                  (JObj [(''client_id'', JStr ''testdroid-cloud-api''),
                         (''grant_type'', JStr ''password''),
                         (''username'', JStr ''joe@example.com''),
                         (''password'', JStr ''123456'')]))],
         server = (\<lambda>k. (20, token_reply))\<rparr>)
   \<and> (\<exists>r. issued (world_at 1000 (\<lambda>k. (20, token_reply)))
          \<lparr>now = 5000, served = 1,
           trace = [Request (tokenRequest example_client
                  (JObj [(''client_id'', JStr ''testdroid-cloud-api''),
                         (''grant_type'', JStr ''password''),
                         (''username'', JStr ''joe@example.com''),
                         (''password'', JStr ''123456'')]))],
           server = (\<lambda>k. (20, token_reply))\<rparr> = [r]
        \<and> req_url r = UrlJoin ''http://cloudurl/'' (Path ''oauth/token''))
   \<and> getToken (client_holding (Some 100000))
        ((world_at 1000 (\<lambda>k. (20, token_reply)))\<lparr>now := 2000\<rparr>)
     = (Inr (JStr ''abc''), client_holding (Some 100000),
        (world_at 1000 (\<lambda>k. (20, token_reply)))\<lparr>now := 2000\<rparr>)
   \<and> issued (world_at 1000 (\<lambda>k. (20, token_reply)))
        ((world_at 1000 (\<lambda>k. (20, token_reply)))\<lparr>now := 2000\<rparr>) = []"
proof -
  let ?w = "world_at 1000 (\<lambda>k. (20, token_reply))"
  let ?c1 = "example_client\<lparr>token := JStr ''abc'', refreshToken := JStr ''xyz'',
                           tokenExpiration := Some 3601020\<rparr>"
  let ?w1 = "\<lparr>now = 1020, served = 1,
       trace = [Request (tokenRequest example_client
                  (JObj [(''client_id'', JStr ''testdroid-cloud-api''),
                         (''grant_type'', JStr ''password''),
                         (''username'', JStr ''joe@example.com''),
                         (''password'', JStr ''123456'')]))],
       server = (\<lambda>k. (20, token_reply))\<rparr>"
  have first: "getToken example_client ?w = (Inr (JStr ''abc''), ?c1, ?w1)"
    by (simp add: example_client_def world_at_def constructor_def
        getToken_def tokenPayload_def num_gt_def send_request_def token_reply_def storeToken_def
        num_add_def num_mul_def newDate_def)
  have stale: "\<not> tokenFresh example_client (now ?w)"
    by (simp add: tokenFresh_def example_client_def constructor_def)
  have held: "truthy (JStr ''abc'')"
    by simp
  have expiry: "tokenExpiration ?c1 = Some 3601020"
    by simp
  have valid: "(5000::int) + 60000 < 3601020"
    by simp
  from getToken_reuse [OF first held expiry valid] stale
  have second: "getToken ?c1 (?w1\<lparr>now := 5000\<rparr>) = (Inr (JStr ''abc''), ?c1, ?w1\<lparr>now := 5000\<rparr>)"
    and "\<exists>r. issued ?w (snd (snd (getToken ?c1 (?w1\<lparr>now := 5000\<rparr>)))) = [r]
             \<and> req_url r = UrlJoin (baseUrl example_client) (Path ''oauth/token'')"
    by blast+
  then have one: "\<exists>r. issued ?w (?w1\<lparr>now := 5000\<rparr>) = [r]
             \<and> req_url r = UrlJoin ''http://cloudurl/'' (Path ''oauth/token'')"
    unfolding second by (simp add: example_client_def constructor_def)
  have fresh: "tokenFresh (client_holding (Some 100000)) (now ?w)"
    by (simp add: tokenFresh_def client_holding_def world_at_def num_gt_def)
  have expiry': "tokenExpiration (client_holding (Some 100000)) = Some 100000"
    by (simp add: client_holding_def)
  have valid': "(2000::int) + 60000 < 100000"
    by simp
  from getToken_reuse [OF cached_example [of "\<lambda>k. (20, token_reply)"] held expiry' valid'] fresh
  have reused: "getToken (client_holding (Some 100000)) (?w\<lparr>now := 2000\<rparr>)
        = (Inr (JStr ''abc''), client_holding (Some 100000), ?w\<lparr>now := 2000\<rparr>)"
    and "issued ?w (snd (snd (getToken (client_holding (Some 100000)) (?w\<lparr>now := 2000\<rparr>)))) = []"
    by blast+
  then have none: "issued ?w (?w\<lparr>now := 2000\<rparr>) = []"
    unfolding reused by simp
  have "getToken ?c1 (?w1\<lparr>now := 5000\<rparr>) = (Inr (JStr ''abc''), ?c1, ?w1\<lparr>now := 5000\<rparr>)
      \<and> (\<exists>r. issued ?w (?w1\<lparr>now := 5000\<rparr>) = [r]
             \<and> req_url r = UrlJoin ''http://cloudurl/'' (Path ''oauth/token''))"
    using second one by (rule conjI)
  then have acquired: "getToken ?c1 \<lparr>now = 5000, served = 1,
        trace = [Request (tokenRequest example_client
                  (JObj [(''client_id'', JStr ''testdroid-cloud-api''),
                         (''grant_type'', JStr ''password''),
                         (''username'', JStr ''joe@example.com''),
                         (''password'', JStr ''123456'')]))],
        server = (\<lambda>k. (20, token_reply))\<rparr>
      = (Inr (JStr ''abc''), ?c1,
         \<lparr>now = 5000, served = 1,
          trace = [Request (tokenRequest example_client
                  (JObj [(''client_id'', JStr ''testdroid-cloud-api''),
                         (''grant_type'', JStr ''password''),
                         (''username'', JStr ''joe@example.com''),
                         (''password'', JStr ''123456'')]))],
          server = (\<lambda>k. (20, token_reply))\<rparr>)
      \<and> (\<exists>r. issued ?w \<lparr>now = 5000, served = 1,
           trace = [Request (tokenRequest example_client
                  (JObj [(''client_id'', JStr ''testdroid-cloud-api''),
                         (''grant_type'', JStr ''password''),
                         (''username'', JStr ''joe@example.com''),
                         (''password'', JStr ''123456'')]))],
           server = (\<lambda>k. (20, token_reply))\<rparr> = [r]
             \<and> req_url r = UrlJoin ''http://cloudurl/'' (Path ''oauth/token''))"
    by simp
  from first acquired reused none show ?thesis
    by blast
qed

section \<open>The verb wrappers\<close>

text \<open>
  Claim C2: \<^verbatim>\<open>get\<close>, \<^verbatim>\<open>post\<close> and \<^verbatim>\<open>del\<close> each throw an error carrying the server error
  message whenever the response indicates failure. \<^verbatim>\<open>get\<close> and \<^verbatim>\<open>del\<close> do, through the
  same block \<^verbatim>\<open>if (!res.ok) throw new Error(res.error)\<close>; \<^verbatim>\<open>post\<close> has no such block and
  returns whatever response it receives. Here the client holds a valid token and the
  server answers the request with a failure carrying the error \<^verbatim>\<open>Internal Server Error\<close>:
  \<^verbatim>\<open>post\<close> returns that response, where \<^verbatim>\<open>get\<close> and \<^verbatim>\<open>del\<close> throw. The last two lines are
  a response that is not a success and carries no error (\<^verbatim>\<open>res.error\<close> is \<^verbatim>\<open>false\<close>): there
  the message \<^verbatim>\<open>get\<close> and \<^verbatim>\<open>del\<close> throw is the text \<^verbatim>\<open>false\<close>.
\<close>

theorem post_returns_failure_response:
  "\<not> ok failure_reply
   \<and> fst (post (Path ''me/device-sessions'') no_opts (client_holding (Some 100000))
            (world_at 1000 (\<lambda>k. (20, failure_reply)))) = Inr failure_reply
   \<and> fst (get (Path ''me/device-sessions'') no_opts (client_holding (Some 100000))
            (world_at 1000 (\<lambda>k. (20, failure_reply))))
       = Inl (Error ''Error: Internal Server Error'')
   \<and> fst (del (Path ''me/device-sessions'') (client_holding (Some 100000))
            (world_at 1000 (\<lambda>k. (20, failure_reply))))
       = Inl (Error ''Error: Internal Server Error'')
   \<and> fst (get (Path ''me/device-sessions'') no_opts (client_holding (Some 100000))
            (world_at 1000 (\<lambda>k. (20, not_modified_reply)))) = Inl (Error ''false'')
   \<and> fst (del (Path ''me/device-sessions'') (client_holding (Some 100000))
            (world_at 1000 (\<lambda>k. (20, not_modified_reply)))) = Inl (Error ''false'')"
  by (simp add: post_def get_def del_def api_request_def buildHeaders_def getToken_def
        tokenPayload_def client_holding_def world_at_def num_gt_def send_request_def
        failure_reply_def not_modified_reply_def no_opts_def errorToString_def Let_def)

text \<open>
  The three wrappers on every path, for every client and every response, once
  \<^verbatim>\<open>getToken\<close> has returned a token. \<^verbatim>\<open>post\<close> returns the response whether it is a success
  or not. \<^verbatim>\<open>get\<close> and \<^verbatim>\<open>del\<close> return a success and throw \<^verbatim>\<open>new Error(res.error)\<close> on
  anything else; the message of that error is the string of \<^verbatim>\<open>res.error\<close>: \<^verbatim>\<open>Error: \<close>
  followed by the message \<open>m\<close> of a server error, \<^verbatim>\<open>Error\<close> alone when that message is
  empty, and \<^verbatim>\<open>false\<close> when the response carries no error.
\<close>

lemma verb_wrappers:
  assumes auth: "getToken c w = (Inr tok, c1, w1)"
  shows "fst (post p os c w) = Inr (answer w1)
    \<and> (ok (answer w1) \<longrightarrow>
            fst (get p os c w) = Inr (answer w1) \<and> fst (del p c w) = Inr (answer w1))
    \<and> (\<not> ok (answer w1) \<and> error (answer w1) = Some m \<and> m \<noteq> [] \<longrightarrow>
            fst (get p os c w) = Inl (Error (''Error: '' @ m))
          \<and> fst (del p c w) = Inl (Error (''Error: '' @ m)))
    \<and> (\<not> ok (answer w1) \<and> error (answer w1) = Some [] \<longrightarrow>
            fst (get p os c w) = Inl (Error ''Error'')
          \<and> fst (del p c w) = Inl (Error ''Error''))
    \<and> (\<not> ok (answer w1) \<and> error (answer w1) = None \<longrightarrow>
            fst (get p os c w) = Inl (Error ''false'')
          \<and> fst (del p c w) = Inl (Error ''false''))"
  by (simp add: get_ok [OF auth] del_ok [OF auth] post_ok [OF auth] errorToString_def)

section \<open>Device sessions: errors\<close>

text \<open>
  Claim C6: \<^verbatim>\<open>startDeviceSession\<close> and \<^verbatim>\<open>stopDeviceSession\<close> each throw an error whose
  message includes the server-provided error message whenever the response is not a
  success. Both test \<^verbatim>\<open>!res.ok\<close> and then read \<^verbatim>\<open>res.error.message\<close>. A response can
  be no success and carry no error (\<^verbatim>\<open>res.error\<close> is \<^verbatim>\<open>false\<close>); the read then gives
  \<^verbatim>\<open>undefined\<close>, and the message thrown ends with that word and carries nothing from the
  server. Here the client holds a valid token and the server answers with such a
  response.
\<close>

theorem deviceSession_message_undefined:
  "\<not> ok not_modified_reply
   \<and> error not_modified_reply = None
   \<and> fst (startDeviceSession ''7'' (client_holding (Some 100000))
          (world_at 1000 (\<lambda>k. (20, not_modified_reply))))
     = Inl (Error ''Could not create session for 7. undefined'')
   \<and> fst (stopDeviceSession ''42'' (client_holding (Some 100000))
          (world_at 1000 (\<lambda>k. (20, not_modified_reply))))
     = Inl (Error ''Could not stop the session properly for 42.  undefined'')"
  by (simp add: startDeviceSession_def stopDeviceSession_def post_def api_request_def
        buildHeaders_def getToken_def tokenPayload_def client_holding_def world_at_def num_gt_def
        send_request_def not_modified_reply_def errorMessage_def Let_def)

text \<open>
  The two functions for every device id, session id, client and response, once
  \<^verbatim>\<open>getToken\<close> has returned a token. On every response that is not a success both throw
  an error, and its message is the text naming the device or the session followed by
  \<^verbatim>\<open>res.error.message\<close>: the message \<open>m\<close> of the server error when the response carries
  one, the word \<^verbatim>\<open>undefined\<close> when it carries none. On a success \<^verbatim>\<open>stopDeviceSession\<close>
  returns the response; \<^verbatim>\<open>startDeviceSession\<close> returns the response body when that is a
  value whose \<^verbatim>\<open>id\<close> can be read, and throws a \<^verbatim>\<open>TypeError\<close> from its read of
  \<^verbatim>\<open>res.body.id\<close> when the body is \<^verbatim>\<open>undefined\<close> or \<^verbatim>\<open>null\<close>.
\<close>

lemma deviceSession_errors:
  assumes auth: "getToken c w = (Inr tok, c1, w1)"
  shows "(\<not> ok (answer w1) \<and> error (answer w1) = Some m \<longrightarrow>
            fst (startDeviceSession deviceId c w) =
              Inl (Error (''Could not create session for '' @ deviceId @ ''. '' @ m))
          \<and> fst (stopDeviceSession sessionId c w) =
              Inl (Error (''Could not stop the session properly for '' @ sessionId @ ''.  '' @ m)))
    \<and> (\<not> ok (answer w1) \<and> error (answer w1) = None \<longrightarrow>
            fst (startDeviceSession deviceId c w) =
              Inl (Error (''Could not create session for '' @ deviceId @ ''. undefined''))
          \<and> fst (stopDeviceSession sessionId c w) =
              Inl (Error (''Could not stop the session properly for '' @ sessionId
                          @ ''.  undefined'')))
    \<and> (ok (answer w1) \<longrightarrow> fst (stopDeviceSession sessionId c w) = Inr (answer w1))
    \<and> (ok (answer w1) \<and> body (answer w1) \<noteq> JUndefined \<and> body (answer w1) \<noteq> JNull \<longrightarrow>
            fst (startDeviceSession deviceId c w) = Inr (body (answer w1)))
    \<and> (ok (answer w1) \<and> (body (answer w1) = JUndefined \<or> body (answer w1) = JNull) \<longrightarrow>
            fst (startDeviceSession deviceId c w) = Inl TypeError)"
proof -
  have start: "fst (startDeviceSession deviceId c w) =
      (if \<not> ok (answer w1) then
         Inl (Error (''Could not create session for '' @ deviceId @ ''. ''
                     @ errorMessage (error (answer w1))))
       else (case getProp (body (answer w1)) ''id'' of
               Inl e \<Rightarrow> Inl e | Inr sid \<Rightarrow> Inr (body (answer w1))))"
    by (simp add: startDeviceSession_def post_ok [OF auth] split: sum.splits)
  have stop: "fst (stopDeviceSession sessionId c w) =
      (if \<not> ok (answer w1) then
         Inl (Error (''Could not stop the session properly for '' @ sessionId @ ''.  ''
                     @ errorMessage (error (answer w1))))
       else Inr (answer w1))"
    by (simp add: stopDeviceSession_def post_ok [OF auth])
  have body: "body (answer w1) \<noteq> JUndefined \<Longrightarrow> body (answer w1) \<noteq> JNull \<Longrightarrow>
      \<exists>v. getProp (body (answer w1)) ''id'' = Inr v"
    by (cases "body (answer w1)") simp_all
  show ?thesis
    using body by (auto simp: start stop errorMessage_def)
qed

lemma deviceSession_errors_example:
  "fst (startDeviceSession ''7'' (client_holding (Some 100000))
          (world_at 1000 (\<lambda>k. (20, failure_reply))))
     = Inl (Error ''Could not create session for 7. Internal Server Error'')
   \<and> fst (stopDeviceSession ''42'' (client_holding (Some 100000))
          (world_at 1000 (\<lambda>k. (20, failure_reply))))
     = Inl (Error ''Could not stop the session properly for 42.  Internal Server Error'')
   \<and> fst (startDeviceSession ''7'' (client_holding (Some 100000))
          (world_at 1000 (\<lambda>k. (20, session_reply)))) = Inr (JObj [(''id'', JNum 42)])
   \<and> fst (stopDeviceSession ''42'' (client_holding (Some 100000))
          (world_at 1000 (\<lambda>k. (20, session_reply)))) = Inr session_reply"
  using deviceSession_errors [OF cached_example [of "\<lambda>k. (20, failure_reply)"],
          where m = "''Internal Server Error''" and deviceId = "''7''" and sessionId = "''42''"]
        deviceSession_errors [OF cached_example [of "\<lambda>k. (20, session_reply)"],
          where m = "''''" and deviceId = "''7''" and sessionId = "''42''"]
  by (simp add: answer_def world_at_def failure_reply_def session_reply_def)

section \<open>Devices by name\<close>

text \<open>
  Claim C7. For every name and every device list the server returns (the response is a
  success, its body's \<^verbatim>\<open>data\<close> is an array, no element of which is \<^verbatim>\<open>undefined\<close> or
  \<^verbatim>\<open>null\<close>), \<^verbatim>\<open>getDevicesByName\<close> returns exactly the devices of that list whose
  \<^verbatim>\<open>displayName\<close> is the given string, in the order of the list. The list is fetched by
  one GET of \<^verbatim>\<open>devices\<close> with the query \<^verbatim>\<open>limit=0\<close> and nothing else, so the filtering is
  the client's.
\<close>

theorem getDevicesByName_exact:
  assumes auth: "getToken c w = (Inr tok, c1, w1)"
    and success: "ok (answer w1)"
    and list: "getProp (body (answer w1)) ''data'' = Inr (JArr ds)"
    and devices: "\<forall>d\<in>set ds. d \<noteq> JUndefined \<and> d \<noteq> JNull"
  shows "fst (getDevicesByName deviceName c w) =
           Inr (JArr (filter (\<lambda>d. getProp d ''displayName'' = Inr (JStr deviceName)) ds))
    \<and> issued w1 (snd (snd (getDevicesByName deviceName c w))) =
         [\<lparr>req_method = ''GET'', req_url = UrlJoin (apiUrl c) (Path ''devices''),
           req_headers = [(''Authorization'', ''Bearer '' @ toStr tok),
                          (''Accept'', ''application/json'')],
           req_data = Query (JObj [(''limit'', JNum 0)])\<rparr>]"
proof -
  have "getDevices 0 c w =
      (Inr (JArr ds), c1,
       answered (apiRequest ''get'' (Path ''devices'')
         \<lparr>payload = Some (JObj [(''limit'', JNum 0)]), headers = None\<rparr> c tok) w1)"
    by (simp add: getDevices_def get_ok [OF auth] success list)
  then show ?thesis
    by (simp add: getDevicesByName_def filterByName_filter [OF devices] issued_answered
          apiRequest_def toUpperCase_get authHeaders_Nil)
qed

theorem getDevicesByName_exact_witness:
  "fst (getDevicesByName ''flame'' (client_holding (Some 100000))
          (world_at 1000 (\<lambda>k. (20, devices_reply))))
     = Inr (JArr [JObj [(''id'', JNum 1), (''displayName'', JStr ''flame'')],
                  JObj [(''id'', JNum 3), (''displayName'', JStr ''flame'')]])"
proof -
  have list: "getProp (body (answer (world_at 1000 (\<lambda>k. (20, devices_reply))))) ''data'' =
      Inr (JArr [JObj [(''id'', JNum 1), (''displayName'', JStr ''flame'')],
                 JObj [(''id'', JNum 2), (''displayName'', JStr ''flame-kk'')],
                 JObj [(''id'', JNum 3), (''displayName'', JStr ''flame'')]])"
    by (simp add: answer_def world_at_def devices_reply_def)
  have success: "ok (answer (world_at 1000 (\<lambda>k. (20, devices_reply))))"
    by (simp add: answer_def world_at_def devices_reply_def)
  from getDevicesByName_exact [OF cached_example success list, of "''flame''"]
  show ?thesis by simp
qed

section \<open>The headers of post\<close>

text \<open>
  Claim C9. For every path and options, \<^verbatim>\<open>post\<close> behaves the same whatever
  \<^verbatim>\<open>opts.headers\<close> held: the caller's headers are discarded. The options the caller finds
  afterwards have \<^verbatim>\<open>headers\<close> replaced: when \<^verbatim>\<open>getToken\<close> returns a token, the request
  sent carries exactly the form-urlencoded Content-Type followed by the Authorization and
  Accept headers that \<^verbatim>\<open>buildHeaders\<close> adds, and \<^verbatim>\<open>opts.headers\<close> is that same object;
  when \<^verbatim>\<open>getToken\<close> throws, \<^verbatim>\<open>opts.headers\<close> is left holding the single Content-Type
  header.
\<close>

theorem post_replaces_headers:
  "post p (os\<lparr>headers := given\<rparr>) c w = post p os c w
   \<and> (getToken c w = (Inr tok, c1, w1) \<longrightarrow>
        post p os c w =
          (Inr (answer w1),
           os\<lparr>headers := Some [(''Content-Type'', ''application/x-www-form-urlencoded''),
                               (''Authorization'', ''Bearer '' @ toStr tok),
                               (''Accept'', ''application/json'')]\<rparr>,
           c1,
           answered
             \<lparr>req_method = ''POST'', req_url = UrlJoin (apiUrl c) p,
              req_headers = [(''Content-Type'', ''application/x-www-form-urlencoded''),
                             (''Authorization'', ''Bearer '' @ toStr tok),
                             (''Accept'', ''application/json'')],
              req_data = Send (case payload os of None \<Rightarrow> JObj [] | Some v \<Rightarrow> v)\<rparr> w1))
   \<and> (getToken c w = (Inl e, c1, w1) \<longrightarrow>
        post p os c w =
          (Inl e,
           os\<lparr>headers := Some [(''Content-Type'', ''application/x-www-form-urlencoded'')]\<rparr>,
           c1, w1))"
proof (intro conjI impI)
  show "post p (os\<lparr>headers := given\<rparr>) c w = post p os c w"
    by (simp add: post_def)
next
  assume "getToken c w = (Inr tok, c1, w1)"
  from post_ok [OF this]
  show "post p os c w =
          (Inr (answer w1),
           os\<lparr>headers := Some [(''Content-Type'', ''application/x-www-form-urlencoded''),
                               (''Authorization'', ''Bearer '' @ toStr tok),
                               (''Accept'', ''application/json'')]\<rparr>,
           c1,
           answered
             \<lparr>req_method = ''POST'', req_url = UrlJoin (apiUrl c) p,
              req_headers = [(''Content-Type'', ''application/x-www-form-urlencoded''),
                             (''Authorization'', ''Bearer '' @ toStr tok),
                             (''Accept'', ''application/json'')],
              req_data = Send (case payload os of None \<Rightarrow> JObj [] | Some v \<Rightarrow> v)\<rparr> w1)"
    by (simp add: authHeaders_form apiRequest_def toUpperCase_post)
next
  assume "getToken c w = (Inl e, c1, w1)"
  then show "post p os c w =
          (Inl e,
           os\<lparr>headers := Some [(''Content-Type'', ''application/x-www-form-urlencoded'')]\<rparr>,
           c1, w1)"
    by (rule post_fail)
qed

theorem post_replaces_headers_witness:
  "post (Path ''me/device-sessions'')
        \<lparr>payload = Some (JObj [(''deviceModelId'', JStr ''7'')]),
         headers = Some [(''x-user'', ''foo''), (''Content-Type'', ''text/plain'')]\<rparr>
        (client_holding (Some 100000)) (world_at 1000 (\<lambda>k. (20, session_reply)))
     = (Inr session_reply,
        \<lparr>payload = Some (JObj [(''deviceModelId'', JStr ''7'')]),
         headers = Some [(''Content-Type'', ''application/x-www-form-urlencoded''),
                         (''Authorization'', ''Bearer abc''),
                         (''Accept'', ''application/json'')]\<rparr>,
        client_holding (Some 100000),
        \<lparr>now = 1020, served = 1,
         trace = [Request
           \<lparr>req_method = ''POST'',
            req_url = UrlJoin ''http://cloudurl/api/v2/'' (Path ''me/device-sessions''),
            req_headers = [(''Content-Type'', ''application/x-www-form-urlencoded''),
                           (''Authorization'', ''Bearer abc''),
                           (''Accept'', ''application/json'')],
            req_data = Send (JObj [(''deviceModelId'', JStr ''7'')])\<rparr>],
         server = (\<lambda>k. (20, session_reply))\<rparr>)
   \<and> post (Path ''me/device-sessions'')
        \<lparr>payload = None, headers = Some [(''x-user'', ''foo'')]\<rparr>
        example_client (world_at 1000 (\<lambda>k. (20, denied_reply)))
     = (Inl (Error ''Could not retrieve token. Error Reponse: Bad credentials''),
        \<lparr>payload = None,
         headers = Some [(''Content-Type'', ''application/x-www-form-urlencoded'')]\<rparr>,
        example_client,
        answered (tokenRequest example_client
                  (JObj [(''client_id'', JStr ''testdroid-cloud-api''),
                         (''grant_type'', JStr ''password''),
                         (''username'', JStr ''joe@example.com''),
                         (''password'', JStr ''123456'')]))
          (world_at 1000 (\<lambda>k. (20, denied_reply))))"
proof -
  have denied: "getToken example_client (world_at 1000 (\<lambda>k. (20, denied_reply))) =
      (Inl (Error ''Could not retrieve token. Error Reponse: Bad credentials''), example_client,
       answered (tokenRequest example_client
                  (JObj [(''client_id'', JStr ''testdroid-cloud-api''),
                         (''grant_type'', JStr ''password''),
                         (''username'', JStr ''joe@example.com''),
                         (''password'', JStr ''123456'')]))
          (world_at 1000 (\<lambda>k. (20, denied_reply))))"
    by (simp add: getToken_def tokenPayload_def example_client_def constructor_def
          send_request_eq answer_def world_at_def denied_reply_def)
  have granted: "post (Path ''me/device-sessions'')
        \<lparr>payload = Some (JObj [(''deviceModelId'', JStr ''7'')]),
         headers = Some [(''x-user'', ''foo''), (''Content-Type'', ''text/plain'')]\<rparr>
        (client_holding (Some 100000)) (world_at 1000 (\<lambda>k. (20, session_reply)))
     = (Inr (answer (world_at 1000 (\<lambda>k. (20, session_reply)))),
        \<lparr>payload = Some (JObj [(''deviceModelId'', JStr ''7'')]),
         headers = Some [(''x-user'', ''foo''), (''Content-Type'', ''text/plain'')]\<rparr>
          \<lparr>headers := Some [(''Content-Type'', ''application/x-www-form-urlencoded''),
                            (''Authorization'', ''Bearer '' @ toStr (JStr ''abc'')),
                            (''Accept'', ''application/json'')]\<rparr>,
        client_holding (Some 100000),
        answered
          \<lparr>req_method = ''POST'',
           req_url = UrlJoin (apiUrl (client_holding (Some 100000))) (Path ''me/device-sessions''),
           req_headers = [(''Content-Type'', ''application/x-www-form-urlencoded''),
                          (''Authorization'', ''Bearer '' @ toStr (JStr ''abc'')),
                          (''Accept'', ''application/json'')],
           req_data = Send (case payload
                \<lparr>payload = Some (JObj [(''deviceModelId'', JStr ''7'')]),
                 headers = Some [(''x-user'', ''foo''), (''Content-Type'', ''text/plain'')]\<rparr>
              of None \<Rightarrow> JObj [] | Some v \<Rightarrow> v)\<rparr>
          (world_at 1000 (\<lambda>k. (20, session_reply))))"
    using post_replaces_headers [where c = "client_holding (Some 100000)"
            and w = "world_at 1000 (\<lambda>k. (20, session_reply))"
            and tok = "JStr ''abc''" and ?c1.0 = "client_holding (Some 100000)"
            and ?w1.0 = "world_at 1000 (\<lambda>k. (20, session_reply))"
            and p = "Path ''me/device-sessions''"
            and os = "\<lparr>payload = Some (JObj [(''deviceModelId'', JStr ''7'')]),
                       headers = Some [(''x-user'', ''foo''), (''Content-Type'', ''text/plain'')]\<rparr>"]
          cached_example [of "\<lambda>k. (20, session_reply)"]
    by blast
  have refused: "post (Path ''me/device-sessions'')
        \<lparr>payload = None, headers = Some [(''x-user'', ''foo'')]\<rparr>
        example_client (world_at 1000 (\<lambda>k. (20, denied_reply)))
     = (Inl (Error ''Could not retrieve token. Error Reponse: Bad credentials''),
        \<lparr>payload = None, headers = Some [(''x-user'', ''foo'')]\<rparr>
          \<lparr>headers := Some [(''Content-Type'', ''application/x-www-form-urlencoded'')]\<rparr>,
        example_client,
        answered (tokenRequest example_client
                  (JObj [(''client_id'', JStr ''testdroid-cloud-api''),
                         (''grant_type'', JStr ''password''),
                         (''username'', JStr ''joe@example.com''),
                         (''password'', JStr ''123456'')]))
          (world_at 1000 (\<lambda>k. (20, denied_reply))))"
    using post_replaces_headers [where c = example_client
            and w = "world_at 1000 (\<lambda>k. (20, denied_reply))"
            and p = "Path ''me/device-sessions''"
            and os = "\<lparr>payload = None, headers = Some [(''x-user'', ''foo'')]\<rparr>"]
          denied
    by blast
  show ?thesis
    unfolding granted refused
    by (simp add: answered_def send_request_def world_at_def client_holding_def
          example_client_def constructor_def answer_def)
qed

section \<open>The Authorization header\<close>

text \<open>
  Claim C10. Once \<^verbatim>\<open>getToken\<close> has returned \<open>tok\<close>, \<^verbatim>\<open>__request\<close> sends exactly one
  request; its Authorization header is \<^verbatim>\<open>Bearer \<close> followed by \<open>tok\<close>, whatever
  Authorization header the caller supplied; its Accept header is the caller's when the
  caller supplied one and \<^verbatim>\<open>application/json\<close> otherwise; every other header is the
  caller's.
\<close>

theorem api_request_authorization:
  assumes auth: "getToken c w = (Inr tok, c1, w1)"
  shows "\<exists>q. issued w1 (snd (snd (snd (api_request meth p os c w)))) = [q]
     \<and> map_of (req_headers q) ''Authorization'' = Some (''Bearer '' @ toStr tok)
     \<and> map_of (req_headers q) ''Accept'' =
         Some (case map_of (case headers os of None \<Rightarrow> [] | Some h \<Rightarrow> h) ''Accept'' of
                 None \<Rightarrow> ''application/json'' | Some a \<Rightarrow> a)
     \<and> (\<forall>k. k \<noteq> ''Authorization'' \<and> k \<noteq> ''Accept'' \<longrightarrow>
           map_of (req_headers q) k = map_of (case headers os of None \<Rightarrow> [] | Some h \<Rightarrow> h) k)"
proof -
  have "issued w1 (snd (snd (snd (api_request meth p os c w)))) = [apiRequest meth p os c tok]"
    by (simp add: api_request_ok [OF auth] issued_answered)
  then show ?thesis
    by (simp add: apiRequest_def map_of_authHeaders)
qed

theorem api_request_authorization_witness:
  "map (\<lambda>q. (map_of (req_headers q) ''Authorization'', map_of (req_headers q) ''Accept'',
              map_of (req_headers q) ''x-user''))
     (issued (world_at 1000 (\<lambda>k. (20, devices_reply)))
        (snd (snd (snd (api_request ''get'' (Path ''devices'')
           \<lparr>payload = None,
            headers = Some [(''Authorization'', ''Basic Zm9v''), (''Accept'', ''text/html''),
                            (''x-user'', ''foo'')]\<rparr>
           (client_holding (Some 100000)) (world_at 1000 (\<lambda>k. (20, devices_reply))))))))
     = [(Some ''Bearer abc'', Some ''text/html'', Some ''foo'')]
   \<and> map (\<lambda>q. (map_of (req_headers q) ''Authorization'', map_of (req_headers q) ''Accept'',
              map_of (req_headers q) ''x-user''))
     (issued (world_at 1000 (\<lambda>k. (20, devices_reply)))
        (snd (snd (snd (api_request ''get'' (Path ''devices'') no_opts
           (client_holding (Some 100000)) (world_at 1000 (\<lambda>k. (20, devices_reply))))))))
     = [(Some ''Bearer abc'', Some ''application/json'', None)]"
proof -
  from api_request_authorization [OF cached_example,
          where meth = "''get''" and p = "Path ''devices''"
            and os = "\<lparr>payload = None,
                       headers = Some [(''Authorization'', ''Basic Zm9v''),
                                       (''Accept'', ''text/html''), (''x-user'', ''foo'')]\<rparr>"
            and srv1 = "\<lambda>k. (20, devices_reply)"]
  obtain q where q: "issued (world_at 1000 (\<lambda>k. (20, devices_reply)))
        (snd (snd (snd (api_request ''get'' (Path ''devices'')
           \<lparr>payload = None,
            headers = Some [(''Authorization'', ''Basic Zm9v''), (''Accept'', ''text/html''),
                            (''x-user'', ''foo'')]\<rparr>
           (client_holding (Some 100000)) (world_at 1000 (\<lambda>k. (20, devices_reply))))))) = [q]"
    and auth: "map_of (req_headers q) ''Authorization'' = Some (''Bearer '' @ toStr (JStr ''abc''))"
    and accept: "map_of (req_headers q) ''Accept'' =
         Some (case map_of (case headers \<lparr>payload = None,
            headers = Some [(''Authorization'', ''Basic Zm9v''), (''Accept'', ''text/html''),
                            (''x-user'', ''foo'')]\<rparr> of None \<Rightarrow> [] | Some h \<Rightarrow> h) ''Accept'' of
                 None \<Rightarrow> ''application/json'' | Some a \<Rightarrow> a)"
    and other: "\<forall>k. k \<noteq> ''Authorization'' \<and> k \<noteq> ''Accept'' \<longrightarrow>
           map_of (req_headers q) k = map_of (case headers \<lparr>payload = None,
            headers = Some [(''Authorization'', ''Basic Zm9v''), (''Accept'', ''text/html''),
                            (''x-user'', ''foo'')]\<rparr> of None \<Rightarrow> [] | Some h \<Rightarrow> h) k"
    by blast
  from other have "map_of (req_headers q) ''x-user'' = Some ''foo''"
    by simp
  with q auth accept have supplied:
    "map (\<lambda>q. (map_of (req_headers q) ''Authorization'', map_of (req_headers q) ''Accept'',
              map_of (req_headers q) ''x-user''))
     (issued (world_at 1000 (\<lambda>k. (20, devices_reply)))
        (snd (snd (snd (api_request ''get'' (Path ''devices'')
           \<lparr>payload = None,
            headers = Some [(''Authorization'', ''Basic Zm9v''), (''Accept'', ''text/html''),
                            (''x-user'', ''foo'')]\<rparr>
           (client_holding (Some 100000)) (world_at 1000 (\<lambda>k. (20, devices_reply))))))))
     = [(Some ''Bearer abc'', Some ''text/html'', Some ''foo'')]"
    by simp
  from api_request_authorization [OF cached_example,
          where meth = "''get''" and p = "Path ''devices''" and os = no_opts
            and srv1 = "\<lambda>k. (20, devices_reply)"]
  obtain q' where q': "issued (world_at 1000 (\<lambda>k. (20, devices_reply)))
        (snd (snd (snd (api_request ''get'' (Path ''devices'') no_opts
           (client_holding (Some 100000)) (world_at 1000 (\<lambda>k. (20, devices_reply))))))) = [q']"
    and auth': "map_of (req_headers q') ''Authorization'' = Some (''Bearer '' @ toStr (JStr ''abc''))"
    and accept': "map_of (req_headers q') ''Accept'' =
         Some (case map_of (case headers no_opts of None \<Rightarrow> [] | Some h \<Rightarrow> h) ''Accept'' of
                 None \<Rightarrow> ''application/json'' | Some a \<Rightarrow> a)"
    and other': "\<forall>k. k \<noteq> ''Authorization'' \<and> k \<noteq> ''Accept'' \<longrightarrow>
           map_of (req_headers q') k =
           map_of (case headers no_opts of None \<Rightarrow> [] | Some h \<Rightarrow> h) k"
    by blast
  from other' have "map_of (req_headers q') ''x-user'' = None"
    by (simp add: no_opts_def)
  with q' auth' accept' have absent:
    "map (\<lambda>q. (map_of (req_headers q) ''Authorization'', map_of (req_headers q) ''Accept'',
              map_of (req_headers q) ''x-user''))
     (issued (world_at 1000 (\<lambda>k. (20, devices_reply)))
        (snd (snd (snd (api_request ''get'' (Path ''devices'') no_opts
           (client_holding (Some 100000)) (world_at 1000 (\<lambda>k. (20, devices_reply))))))))
     = [(Some ''Bearer abc'', Some ''application/json'', None)]"
    by (simp add: no_opts_def)
  from supplied absent show ?thesis
    by (rule conjI)
qed

section \<open>Polling for a proxy\<close>

text \<open>
  Claim C3. For every type and session id: if the \<^verbatim>\<open>get\<close> of each of the 30 attempts
  returns an empty list, \<^verbatim>\<open>getProxy\<close> throws the error
  \<^verbatim>\<open>Could not get <type> proxy session for <sessionId>\<close>, in the state reached after the
  30th attempt and its sleep; if attempt \<open>n\<close> is the first whose \<^verbatim>\<open>get\<close> returns a
  nonempty list, \<^verbatim>\<open>getProxy\<close> returns the first element of that list, in the state that
  \<^verbatim>\<open>get\<close> left (no sleep, no further attempt); and whatever happens, at most 30 proxy
  queries are sent. Each attempt that returns without a result is followed by a sleep of
  5000 ms (\<open>attemptState\<close>). With a token that stays valid through the polling, so that
  the proxy queries are the only requests, the trace shows it: 30 empty lists give exactly
  30 requests, each followed by a sleep of 5000 ms, and a first nonempty list at attempt
  \<open>n\<close> gives \<open>n + 1\<close> requests with a sleep of 5000 ms between consecutive ones and none
  after the last.
\<close>

theorem getProxy_polling:
  "((\<forall>k<30. \<exists>r. fst (attemptResult type sessionId c w k) = Inr r \<and> body r = JArr []) \<longrightarrow>
        getProxy type sessionId c w =
          (Inl (Error (''Could not get '' @ type @ '' proxy session for '' @ sessionId)),
           attemptState type sessionId c w 30))
    \<and> (n < 30
        \<and> (\<forall>k<n. \<exists>r. fst (attemptResult type sessionId c w k) = Inr r \<and> body r = JArr [])
        \<and> fst (attemptResult type sessionId c w n) = Inr r \<and> body r = JArr (x # xs) \<longrightarrow>
        getProxy type sessionId c w = (Inr x, snd (attemptResult type sessionId c w n)))
    \<and> length (filter isProxyQuery (issued w (snd (snd (getProxy type sessionId c w))))) \<le> 30
    \<and> ((\<forall>k<30. tokenFresh c (attemptTime w k))
        \<and> (\<forall>k<30. ok (attemptReply w k) \<and> body (attemptReply w k) = JArr []) \<longrightarrow>
        fst (getProxy type sessionId c w) =
          Inl (Error (''Could not get '' @ type @ '' proxy session for '' @ sessionId))
      \<and> trace (snd (snd (getProxy type sessionId c w))) =
          trace w @ concat (replicate 30 [Request (proxyRequest c type sessionId), Sleep 5000]))
    \<and> ((\<forall>k<30. tokenFresh c (attemptTime w k))
        \<and> n < 30 \<and> (\<forall>k<n. ok (attemptReply w k) \<and> body (attemptReply w k) = JArr [])
        \<and> ok (attemptReply w n) \<and> body (attemptReply w n) = JArr (x # xs) \<longrightarrow>
        fst (getProxy type sessionId c w) = Inr x
      \<and> trace (snd (snd (getProxy type sessionId c w))) =
          trace w @ concat (replicate n [Request (proxyRequest c type sessionId), Sleep 5000])
            @ [Request (proxyRequest c type sessionId)])"
proof (intro conjI impI)
  assume all: "\<forall>k<30. \<exists>r. fst (attemptResult type sessionId c w k) = Inr r \<and> body r = JArr []"
  then have empty:
    "\<forall>j<30. \<exists>r. fst (attemptResult type sessionId c w j) = Inr r \<and> \<not> hasResult (body r)"
    by (auto simp: hasResult_JArr)
  from all have "\<exists>r. fst (attemptResult type sessionId c w 29) = Inr r \<and> body r = JArr []"
    by simp
  then obtain r where last: "fst (attemptResult type sessionId c w 29) = Inr r"
    and r: "body r = JArr []"
    by blast
  show "getProxy type sessionId c w =
          (Inl (Error (''Could not get '' @ type @ '' proxy session for '' @ sessionId)),
           attemptState type sessionId c w 30)"
    by (simp add: getProxy_exhausted_attempts [OF empty last] r del: attemptState.simps)
next
  assume h: "n < 30
        \<and> (\<forall>k<n. \<exists>r. fst (attemptResult type sessionId c w k) = Inr r \<and> body r = JArr [])
        \<and> fst (attemptResult type sessionId c w n) = Inr r \<and> body r = JArr (x # xs)"
  then have n: "n < 30"
    and empty: "\<forall>j<n. \<exists>r. fst (attemptResult type sessionId c w j) = Inr r \<and> \<not> hasResult (body r)"
    and stop: "\<forall>r. fst (attemptResult type sessionId c w n) = Inr r \<longrightarrow> hasResult (body r)"
    by (auto simp: hasResult_JArr)
  show "getProxy type sessionId c w = (Inr x, snd (attemptResult type sessionId c w n))"
    using h by (simp add: getProxy_stops_attempts [OF n empty stop])
next
  show "length (filter isProxyQuery (issued w (snd (snd (getProxy type sessionId c w))))) \<le> 30"
    by (rule getProxy_queries)
next
  assume h: "(\<forall>k<30. tokenFresh c (attemptTime w k))
      \<and> (\<forall>k<30. ok (attemptReply w k) \<and> body (attemptReply w k) = JArr [])"
  then have fresh: "\<forall>k<30. tokenFresh c (attemptTime w k)"
    and empty: "\<forall>j<30. ok (attemptReply w j) \<and> \<not> hasResult (body (attemptReply w j))"
    by (simp_all add: hasResult_JArr)
  from h have last: "body (attemptReply w 29) = JArr []"
    by simp
  show "fst (getProxy type sessionId c w) =
          Inl (Error (''Could not get '' @ type @ '' proxy session for '' @ sessionId))"
    by (simp add: getProxy_exhausted [OF fresh empty] last)
  show "trace (snd (snd (getProxy type sessionId c w))) =
          trace w @ concat (replicate 30 [Request (proxyRequest c type sessionId), Sleep 5000])"
    by (simp only: getProxy_exhausted [OF fresh empty] snd_conv polled_trace)
next
  assume h: "(\<forall>k<30. tokenFresh c (attemptTime w k))
        \<and> n < 30 \<and> (\<forall>k<n. ok (attemptReply w k) \<and> body (attemptReply w k) = JArr [])
        \<and> ok (attemptReply w n) \<and> body (attemptReply w n) = JArr (x # xs)"
  then have fresh: "\<forall>k<30. tokenFresh c (attemptTime w k)"
    and n: "n < 30"
    and empty: "\<forall>j<n. ok (attemptReply w j) \<and> \<not> hasResult (body (attemptReply w j))"
    and stop: "\<not> ok (attemptReply w n) \<or> hasResult (body (attemptReply w n))"
    by (simp_all add: hasResult_JArr)
  show "fst (getProxy type sessionId c w) = Inr x"
    using h by (simp add: getProxy_stops [OF n fresh empty stop])
  show "trace (snd (snd (getProxy type sessionId c w))) =
          trace w @ concat (replicate n [Request (proxyRequest c type sessionId), Sleep 5000])
            @ [Request (proxyRequest c type sessionId)]"
    by (simp only: getProxy_stops [OF n fresh empty stop] snd_conv answered_simps polled_trace
          append_assoc)
qed

theorem getProxy_polling_witness:
  "fst (getProxy ''adb'' ''42'' (client_holding (Some 10000000))
          (world_at 1000 (\<lambda>k. (20, empty_reply))))
     = Inl (Error ''Could not get adb proxy session for 42'')
   \<and> length (trace (snd (snd (getProxy ''adb'' ''42'' (client_holding (Some 10000000))
          (world_at 1000 (\<lambda>k. (20, empty_reply))))))) = 60
   \<and> fst (getProxy ''adb'' ''42'' (client_holding (Some 10000000))
          (world_at 1000 (\<lambda>k. (20, if k < 3 then empty_reply else proxy_reply))))
     = Inr (JObj [(''type'', JStr ''adb''), (''sessionId'', JNum 42), (''port'', JNum 5555)])
   \<and> length (trace (snd (snd (getProxy ''adb'' ''42'' (client_holding (Some 10000000))
          (world_at 1000 (\<lambda>k. (20, if k < 3 then empty_reply else proxy_reply))))))) = 7"
proof -
  let ?c = "client_holding (Some 10000000)"
  let ?w = "world_at 1000 (\<lambda>k. (20, empty_reply))"
  let ?v = "world_at 1000 (\<lambda>k. (20, if k < 3 then empty_reply else proxy_reply))"
  let ?x = "JObj [(''type'', JStr ''adb''), (''sessionId'', JNum 42), (''port'', JNum 5555)]"
  let ?xs = "[JObj [(''type'', JStr ''adb''), (''sessionId'', JNum 42), (''port'', JNum 5556)]]"
  note thm1 = getProxy_polling [where c = ?c and w = ?w and type = "''adb''"
      and sessionId = "''42''"]
  note thm2 = getProxy_polling [where c = ?c and w = ?v and type = "''adb''"
      and sessionId = "''42''" and n = 3 and r = proxy_reply and x = ?x and xs = ?xs]
  have attempts1: "\<forall>k<30. \<exists>r. fst (attemptResult ''adb'' ''42'' ?c ?w k) = Inr r \<and> body r = JArr []"
    using attemptResult_example [where rs = "\<lambda>k. empty_reply" and type = "''adb''"
        and sessionId = "''42''"]
    by (simp add: empty_reply_def hasResult_def)
  with thm1 have general1: "getProxy ''adb'' ''42'' ?c ?w =
      (Inl (Error (''Could not get '' @ ''adb'' @ '' proxy session for '' @ ''42'')),
       attemptState ''adb'' ''42'' ?c ?w 30)"
    by blast
  have all: "\<forall>k<30. ok (attemptReply ?w k) \<and> body (attemptReply ?w k) = JArr []"
    by (simp add: attemptReply_example empty_reply_def)
  with thm1 fresh_example [of "\<lambda>k. empty_reply"]
  have trace1: "trace (snd (snd (getProxy ''adb'' ''42'' ?c ?w))) =
      trace ?w @ concat (replicate 30 [Request (proxyRequest ?c ''adb'' ''42''), Sleep 5000])"
    by blast
  have attempts2: "(3::nat) < 30
      \<and> (\<forall>k<3. \<exists>r. fst (attemptResult ''adb'' ''42'' ?c ?v k) = Inr r \<and> body r = JArr [])
      \<and> fst (attemptResult ''adb'' ''42'' ?c ?v 3) = Inr proxy_reply
      \<and> body proxy_reply = JArr (?x # ?xs)"
    using attemptResult_example [where rs = "\<lambda>k. if k < 3 then empty_reply else proxy_reply"
        and type = "''adb''" and sessionId = "''42''"]
    by (simp add: empty_reply_def proxy_reply_def hasResult_def)
  with thm2 have general2: "getProxy ''adb'' ''42'' ?c ?v =
      (Inr ?x, snd (attemptResult ''adb'' ''42'' ?c ?v 3))"
    by blast
  have found: "(3::nat) < 30
      \<and> (\<forall>k<3. ok (attemptReply ?v k) \<and> body (attemptReply ?v k) = JArr [])
      \<and> ok (attemptReply ?v 3) \<and> body (attemptReply ?v 3) = JArr (?x # ?xs)"
    by (simp add: attemptReply_example empty_reply_def proxy_reply_def)
  with thm2 fresh_example [of "\<lambda>k. if k < 3 then empty_reply else proxy_reply"]
  have trace2: "trace (snd (snd (getProxy ''adb'' ''42'' ?c ?v))) =
      trace ?v @ concat (replicate 3 [Request (proxyRequest ?c ''adb'' ''42''), Sleep 5000])
        @ [Request (proxyRequest ?c ''adb'' ''42'')]"
    by blast
  from general1 have thrown: "fst (getProxy ''adb'' ''42'' ?c ?w) =
      Inl (Error ''Could not get adb proxy session for 42'')"
    by simp
  from general2 have returned: "fst (getProxy ''adb'' ''42'' ?c ?v) = Inr ?x"
    by simp
  show ?thesis
    unfolding thrown returned trace1 trace2
    by (simp add: world_at_def length_concat sum_list_replicate)
qed

section \<open>Failures while polling\<close>

text \<open>
  Claim C8. If attempt \<open>n\<close> is the first whose \<^verbatim>\<open>get\<close> throws (the earlier attempts having
  returned without a result), \<^verbatim>\<open>getProxy\<close> throws that very error in the state that
  \<^verbatim>\<open>get\<close> left: no sleep and no further attempt follow. \<^verbatim>\<open>get\<close> throws whenever the
  attempt receives a response that is not a success: the error is
  \<^verbatim>\<open>new Error(res.error)\<close> and the request is the last event. And if \<^verbatim>\<open>getProxy\<close> throws
  the retry-exhaustion error, then the \<^verbatim>\<open>get\<close> of each of the 30 attempts returned a
  success response without a result, which for a list means the empty list.
\<close>

theorem getProxy_failure_propagates:
  "(n < 30
      \<and> (\<forall>k<n. \<exists>r. fst (attemptResult type sessionId c w k) = Inr r \<and> \<not> hasResult (body r))
      \<and> fst (attemptResult type sessionId c w n) = Inl e \<longrightarrow>
        getProxy type sessionId c w = (Inl e, snd (attemptResult type sessionId c w n)))
    \<and> (attemptState type sessionId c w n = (cn, wn) \<and> getToken cn wn = (Inr tok, c1, w1)
        \<and> \<not> ok (answer w1) \<longrightarrow>
        attemptResult type sessionId c w n =
          (Inl (Error (errorToString (error (answer w1)))), c1,
           answered (apiRequest ''get'' (ProxyQuery type sessionId) no_opts cn tok) w1))
    \<and> (fst (getProxy type sessionId c w) =
          Inl (Error (''Could not get '' @ type @ '' proxy session for '' @ sessionId)) \<longrightarrow>
        (\<forall>k<30. \<exists>r. fst (attemptResult type sessionId c w k) = Inr r \<and> ok r
                    \<and> \<not> hasResult (body r) \<and> (\<forall>xs. body r = JArr xs \<longrightarrow> xs = [])))"
proof (intro conjI impI)
  assume h: "n < 30
      \<and> (\<forall>k<n. \<exists>r. fst (attemptResult type sessionId c w k) = Inr r \<and> \<not> hasResult (body r))
      \<and> fst (attemptResult type sessionId c w n) = Inl e"
  then have n: "n < 30"
    and empty: "\<forall>j<n. \<exists>r. fst (attemptResult type sessionId c w j) = Inr r \<and> \<not> hasResult (body r)"
    and stop: "\<forall>r. fst (attemptResult type sessionId c w n) = Inr r \<longrightarrow> hasResult (body r)"
    by simp_all
  show "getProxy type sessionId c w = (Inl e, snd (attemptResult type sessionId c w n))"
    using h by (simp add: getProxy_stops_attempts [OF n empty stop])
next
  assume h: "attemptState type sessionId c w n = (cn, wn) \<and> getToken cn wn = (Inr tok, c1, w1)
        \<and> \<not> ok (answer w1)"
  then have tok: "getToken cn wn = (Inr tok, c1, w1)"
    by simp
  show "attemptResult type sessionId c w n =
          (Inl (Error (errorToString (error (answer w1)))), c1,
           answered (apiRequest ''get'' (ProxyQuery type sessionId) no_opts cn tok) w1)"
    using h by (simp add: attemptResult_def get_ok [OF tok])
next
  assume timeout: "fst (getProxy type sessionId c w) =
          Inl (Error (''Could not get '' @ type @ '' proxy session for '' @ sessionId))"
  have all: "\<forall>j<30. \<exists>r. fst (attemptResult type sessionId c w j) = Inr r \<and> \<not> hasResult (body r)"
  proof (rule ccontr)
    assume "\<not> (\<forall>j<30. \<exists>r. fst (attemptResult type sessionId c w j) = Inr r
                         \<and> \<not> hasResult (body r))"
    then obtain n where n: "n < 30"
      and empty: "\<forall>j<n. \<exists>r. fst (attemptResult type sessionId c w j) = Inr r
                       \<and> \<not> hasResult (body r)"
      and stop: "\<forall>r. fst (attemptResult type sessionId c w n) = Inr r \<longrightarrow> hasResult (body r)"
      by (rule first_stop_attempts)
    note result = getProxy_stops_attempts [OF n empty stop]
    show False
    proof (cases "fst (attemptResult type sessionId c w n)")
      case (Inl e)
      with timeout result
      have "fst (attemptResult type sessionId c w n) =
          Inl (Error (''Could not get '' @ type @ '' proxy session for '' @ sessionId))"
        by simp
      from attemptResult_error_prefix [OF this] show False
        by simp
    next
      case (Inr r)
      with stop obtain x where "index0 (body r) = Inr x"
        using hasResult_index0 by blast
      with timeout result Inr show False
        by simp
    qed
  qed
  show "\<forall>k<30. \<exists>r. fst (attemptResult type sessionId c w k) = Inr r \<and> ok r
                    \<and> \<not> hasResult (body r) \<and> (\<forall>xs. body r = JArr xs \<longrightarrow> xs = [])"
  proof (intro allI impI)
    fix k :: nat
    assume "k < 30"
    with all obtain r where r: "fst (attemptResult type sessionId c w k) = Inr r"
      "\<not> hasResult (body r)"
      by blast
    from r(1) have "ok r"
      by (rule attemptResult_ok)
    with r show "\<exists>r. fst (attemptResult type sessionId c w k) = Inr r \<and> ok r
                    \<and> \<not> hasResult (body r) \<and> (\<forall>xs. body r = JArr xs \<longrightarrow> xs = [])"
      by (auto simp: hasResult_JArr)
  qed
qed

theorem getProxy_failure_propagates_witness:
  "fst (getProxy ''adb'' ''42'' (client_holding (Some 10000000))
          (world_at 1000 (\<lambda>k. (20, if k < 2 then empty_reply else failure_reply))))
     = Inl (Error ''Error: Internal Server Error'')
   \<and> length (trace (snd (snd (getProxy ''adb'' ''42'' (client_holding (Some 10000000))
          (world_at 1000 (\<lambda>k. (20, if k < 2 then empty_reply else failure_reply))))))) = 5
   \<and> fst (getProxy ''adb'' ''42'' (client_holding (Some 10000000))
          (world_at 1000 (\<lambda>k. (20, empty_reply))))
     = Inl (Error ''Could not get adb proxy session for 42'')
   \<and> (\<exists>r. fst (attemptResult ''adb'' ''42'' (client_holding (Some 10000000))
                 (world_at 1000 (\<lambda>k. (20, empty_reply))) 29) = Inr r
          \<and> ok r \<and> \<not> hasResult (body r))"
proof -
  let ?c = "client_holding (Some 10000000)"
  let ?w = "world_at 1000 (\<lambda>k. (20, empty_reply))"
  let ?v = "world_at 1000 (\<lambda>k. (20, if k < 2 then empty_reply else failure_reply))"
  let ?q = "proxyRequest ?c ''adb'' ''42''"
  note thm1 = getProxy_failure_propagates [where c = ?c and w = ?v and type = "''adb''"
      and sessionId = "''42''" and n = 2 and cn = ?c and wn = "polled ?q 2 ?v"
      and tok = "JStr ''abc''" and ?c1.0 = ?c and ?w1.0 = "polled ?q 2 ?v"
      and e = "Error (errorToString (error (answer (polled ?q 2 ?v))))"]
  note thm2 = getProxy_failure_propagates [where c = ?c and w = ?w and type = "''adb''"
      and sessionId = "''42''"]
  have state: "attemptState ''adb'' ''42'' ?c ?v 2 = (?c, polled ?q 2 ?v)"
    using fresh_example [of "\<lambda>k. if k < 2 then empty_reply else failure_reply"]
    by (intro attemptState_fresh)
       (simp_all add: attemptReply_example empty_reply_def hasResult_def)
  have "tokenFresh ?c (now (polled ?q 2 ?v))"
    using fresh_example [of "\<lambda>k. if k < 2 then empty_reply else failure_reply"]
    by (simp add: polled_now)
  then have token: "getToken ?c (polled ?q 2 ?v) = (Inr (JStr ''abc''), ?c, polled ?q 2 ?v)"
    by (simp add: getToken_cached tokenPayload_fresh client_holding_def)
  have failed: "\<not> ok (answer (polled ?q 2 ?v))"
    by (simp add: answer_polled attemptReply_example failure_reply_def)
  from thm1 state token failed
  have thrown: "attemptResult ''adb'' ''42'' ?c ?v 2 =
      (Inl (Error (errorToString (error (answer (polled ?q 2 ?v))))), ?c,
       answered (apiRequest ''get'' (ProxyQuery ''adb'' ''42'') no_opts ?c (JStr ''abc''))
         (polled ?q 2 ?v))"
    by blast
  have earlier: "(2::nat) < 30
      \<and> (\<forall>k<2. \<exists>r. fst (attemptResult ''adb'' ''42'' ?c ?v k) = Inr r \<and> \<not> hasResult (body r))"
    using attemptResult_example [where rs = "\<lambda>k. if k < 2 then empty_reply else failure_reply"
        and type = "''adb''" and sessionId = "''42''"]
    by (simp add: empty_reply_def hasResult_def)
  from thrown have "fst (attemptResult ''adb'' ''42'' ?c ?v 2) =
      Inl (Error (errorToString (error (answer (polled ?q 2 ?v)))))"
    by simp
  with thm1 earlier
  have propagated: "getProxy ''adb'' ''42'' ?c ?v =
      (Inl (Error (errorToString (error (answer (polled ?q 2 ?v))))),
       snd (attemptResult ''adb'' ''42'' ?c ?v 2))"
    by blast
  have empty: "\<forall>j<30. ok (attemptReply ?w j) \<and> \<not> hasResult (body (attemptReply ?w j))"
    by (simp add: attemptReply_example empty_reply_def hasResult_def)
  have timeout: "fst (getProxy ''adb'' ''42'' ?c ?w) =
      Inl (Error (''Could not get '' @ ''adb'' @ '' proxy session for '' @ ''42''))"
    by (simp only: getProxy_exhausted [OF fresh_example [of "\<lambda>k. empty_reply"] empty] fst_conv)
       (simp add: attemptReply_example empty_reply_def)
  with thm2
  have "\<forall>k<30. \<exists>r. fst (attemptResult ''adb'' ''42'' ?c ?w k) = Inr r \<and> ok r
      \<and> \<not> hasResult (body r) \<and> (\<forall>xs. body r = JArr xs \<longrightarrow> xs = [])"
    by blast
  from this [rule_format, of 29]
  have last: "\<exists>r. fst (attemptResult ''adb'' ''42'' ?c ?w 29) = Inr r \<and> ok r
      \<and> \<not> hasResult (body r)"
    by auto
  show ?thesis
    unfolding propagated thrown
    using timeout last
    by (simp add: answer_polled attemptReply_def failure_reply_def errorToString_def
          answered_simps polled_trace world_at_def length_concat sum_list_replicate)
qed

end
